theory Spec2Isabelle
  imports Main "HOL-Library.Multiset" "HOL-Library.Word"
begin

section \<open>Conventions\<close>

text \<open>
  A shallow embedding of the authentication and audit code of SecureSphere.

  \<^item> A JavaScript \<open>throw new Error(msg)\<close> is the value \<open>Inl msg\<close> of a sum type whose
    right component is the normal result; \<open>try { .. } catch\<close> is a \<open>case\<close> on that sum.
  \<^item> A value that may be \<open>undefined\<close> or \<open>null\<close> is an \<open>option\<close>.
  \<^item> A string of which the code only asks whether it is empty or equal to another one is a
    \<open>string\<close>; the strings that go through the field cipher, whose library encodes them
    as UTF-8, are lists of UTF-16 code units.
  \<^item> A Firestore collection is the list of its documents in the order in which a query
    enumerates them.
  \<^item> Everything the code reads from its surroundings (the browser's WebAuthn ceremony,
    the clock, whether a network call or a database call fails, the cipher library) is an
    explicit parameter.
\<close>

type_synonym 'a throws = "string + 'a"

section \<open>Field cipher (\<open>utils/encryption.ts\<close>)\<close>

text \<open>
  A JavaScript string is the list of its UTF-16 code units; \<open>js\<close> turns a literal of
  characters below 256 into one. Messages of exceptions, which are fixed texts, stay
  \<open>string\<close>s.
\<close>

type_synonym jsString = "16 word list"

type_synonym bytes = "8 word list"

definition js :: "string \<Rightarrow> jsString" where
  "js s = map (\<lambda>c. of_nat (of_char c)) s"

subsection \<open>The UTF-8 codec of \<open>crypto-js\<close>\<close>

text \<open>
  \<open>CryptoJS.enc.Utf8.parse(str)\<close> is \<open>Latin1.parse(unescape(encodeURIComponent(str)))\<close>
  and \<open>CryptoJS.enc.Utf8.stringify(words)\<close> is
  \<open>decodeURIComponent(escape(Latin1.stringify(words)))\<close>, with any exception turned into
  \<open>Malformed UTF-8 data\<close>. By ECMAScript, \<open>encodeURIComponent\<close> reads the string as
  UTF-16 and throws a URIError on a surrogate that is not part of a pair, and
  \<open>decodeURIComponent\<close> throws on bytes that are not the UTF-8 encoding of code points
  (overlong forms, encoded surrogates and values above 10FFFF included). \<open>None\<close> is the
  exception.
\<close>

definition isHighSurrogate :: "16 word \<Rightarrow> bool" where
  "isHighSurrogate u \<longleftrightarrow> 0xD800 \<le> unat u \<and> unat u \<le> 0xDBFF"

definition isLowSurrogate :: "16 word \<Rightarrow> bool" where
  "isLowSurrogate u \<longleftrightarrow> 0xDC00 \<le> unat u \<and> unat u \<le> 0xDFFF"

text \<open>The UTF-8 bytes of a code point.\<close>

definition utf8_bytes :: "nat \<Rightarrow> bytes" where
  "utf8_bytes cp =
     (if cp < 0x80 then [of_nat cp]
      else if cp < 0x800 then [of_nat (0xC0 + cp div 64), of_nat (0x80 + cp mod 64)]
      else if cp < 0x10000 then
        [of_nat (0xE0 + cp div 4096), of_nat (0x80 + cp div 64 mod 64), of_nat (0x80 + cp mod 64)]
      else
        [of_nat (0xF0 + cp div 262144), of_nat (0x80 + cp div 4096 mod 64),
         of_nat (0x80 + cp div 64 mod 64), of_nat (0x80 + cp mod 64)])"

fun Utf8_parse :: "jsString \<Rightarrow> bytes option" where
  "Utf8_parse [] = Some []"
| "Utf8_parse (u # us) =
     (if isLowSurrogate u then None
      else if isHighSurrogate u then
        (case us of
           [] \<Rightarrow> None
         | l # rest \<Rightarrow>
             if isLowSurrogate l then
               map_option
                 ((@) (utf8_bytes (0x10000 + (unat u - 0xD800) * 0x400 + (unat l - 0xDC00))))
                 (Utf8_parse rest)
             else None)
      else map_option ((@) (utf8_bytes (unat u))) (Utf8_parse us))"

definition continuation :: "8 word \<Rightarrow> bool" where
  "continuation b \<longleftrightarrow> 0x80 \<le> unat b \<and> unat b \<le> 0xBF"

text \<open>The UTF-16 code units of a code point.\<close>

definition codeUnits :: "nat \<Rightarrow> jsString" where
  "codeUnits cp =
     (if cp < 0x10000 then [of_nat cp]
      else [of_nat (0xD800 + (cp - 0x10000) div 0x400), of_nat (0xDC00 + (cp - 0x10000) mod 0x400)])"

fun Utf8_stringify :: "bytes \<Rightarrow> jsString option" where
  "Utf8_stringify [] = Some []"
| "Utf8_stringify (b # bs) =
     (if unat b < 0x80 then map_option ((@) (codeUnits (unat b))) (Utf8_stringify bs)
      else if 0xC0 \<le> unat b \<and> unat b \<le> 0xDF then
        (case bs of
           b1 # r \<Rightarrow>
             (let cp = (unat b - 0xC0) * 64 + (unat b1 - 0x80) in
              if continuation b1 \<and> 0x80 \<le> cp
              then map_option ((@) (codeUnits cp)) (Utf8_stringify r) else None)
         | _ \<Rightarrow> None)
      else if 0xE0 \<le> unat b \<and> unat b \<le> 0xEF then
        (case bs of
           b1 # b2 # r \<Rightarrow>
             (let cp = (unat b - 0xE0) * 4096 + (unat b1 - 0x80) * 64 + (unat b2 - 0x80) in
              if continuation b1 \<and> continuation b2 \<and> 0x800 \<le> cp \<and> \<not> (0xD800 \<le> cp \<and> cp \<le> 0xDFFF)
              then map_option ((@) (codeUnits cp)) (Utf8_stringify r) else None)
         | _ \<Rightarrow> None)
      else if 0xF0 \<le> unat b \<and> unat b \<le> 0xF7 then
        (case bs of
           b1 # b2 # b3 # r \<Rightarrow>
             (let cp = (unat b - 0xF0) * 262144 + (unat b1 - 0x80) * 4096
                         + (unat b2 - 0x80) * 64 + (unat b3 - 0x80) in
              if continuation b1 \<and> continuation b2 \<and> continuation b3 \<and> 0x10000 \<le> cp \<and> cp \<le> 0x10FFFF
              then map_option ((@) (codeUnits cp)) (Utf8_stringify r) else None)
         | _ \<Rightarrow> None)
      else None)"

text \<open>
  A string is well formed when every surrogate in it is part of a pair, a high one followed
  by a low one.
\<close>

fun wellFormed :: "jsString \<Rightarrow> bool" where
  "wellFormed [] = True"
| "wellFormed (u # us) =
     (if isLowSurrogate u then False
      else if isHighSurrogate u then
        (case us of [] \<Rightarrow> False | l # rest \<Rightarrow> isLowSurrogate l \<and> wellFormed rest)
      else wellFormed us)"

subsection \<open>The two calls into the library\<close>

text \<open>
  The cipher proper of \<open>crypto-js\<close> (key derivation from the passphrase, AES, padding and
  the serialisation of salt and ciphertext as a string) is a parameter of the model:
  \<^item> \<open>cipher message passphrase salt\<close> is the string that encrypting the message bytes
    under the passphrase bytes gives, where \<open>salt\<close> are the random bytes the library draws;
  \<^item> \<open>decipher text passphrase\<close> are the bytes that decrypting the string under the
    passphrase bytes gives; \<open>None\<close> when the library throws.
\<close>

record cryptoJS =
  cipher :: "bytes \<Rightarrow> bytes \<Rightarrow> bytes \<Rightarrow> jsString"
  decipher :: "jsString \<Rightarrow> bytes \<Rightarrow> bytes option"

text \<open>
  \<open>CryptoJS.AES.encrypt(data, passphrase).toString()\<close>: passphrase and data, both
  strings, are parsed as UTF-8 before they are used; \<open>None\<close> when that throws.
\<close>

definition AES_encrypt :: "cryptoJS \<Rightarrow> jsString \<Rightarrow> jsString \<Rightarrow> bytes \<Rightarrow> jsString option" where
  "AES_encrypt L data passphrase salt =
     (case Utf8_parse passphrase of
        None \<Rightarrow> None
      | Some pw \<Rightarrow>
          (case Utf8_parse data of
             None \<Rightarrow> None
           | Some message \<Rightarrow> Some (cipher L message pw salt)))"

text \<open>
  \<open>CryptoJS.AES.decrypt(ciphertext, passphrase).toString(CryptoJS.enc.Utf8)\<close>; \<open>None\<close>
  when either call throws.
\<close>

definition AES_decrypt_Utf8 :: "cryptoJS \<Rightarrow> jsString \<Rightarrow> jsString \<Rightarrow> jsString option" where
  "AES_decrypt_Utf8 L ciphertext passphrase =
     (case Utf8_parse passphrase of
        None \<Rightarrow> None
      | Some pw \<Rightarrow>
          (case decipher L ciphertext pw of
             None \<Rightarrow> None
           | Some message \<Rightarrow> Utf8_stringify message))"

subsection \<open>\<open>encryptionUtil\<close> and \<open>decryptObject\<close>\<close>

text \<open>
  \<open>const ENCRYPTION_KEY = process.env.NEXT_PUBLIC_ENCRYPTION_KEY || "default_32_character_key_for_demo"\<close>;
  the argument is the environment variable (\<open>None\<close> when unset).
\<close>

definition ENCRYPTION_KEY :: "jsString option \<Rightarrow> jsString" where
  "ENCRYPTION_KEY env =
     (case env of
        None \<Rightarrow> js ''default_32_character_key_for_demo''
      | Some k \<Rightarrow> if k = [] then js ''default_32_character_key_for_demo'' else k)"

definition encrypt :: "cryptoJS \<Rightarrow> jsString option \<Rightarrow> bytes \<Rightarrow> jsString \<Rightarrow> jsString throws" where
  "encrypt L env salt data =
     (case AES_encrypt L data (ENCRYPTION_KEY env) salt of
        Some encrypted \<Rightarrow> Inr encrypted
      | None \<Rightarrow> Inl ''Failed to encrypt data'')"

text \<open>
  The inner \<open>throw\<close> of \<open>decrypt\<close> (on an empty decrypted string) is caught by the function's
  own \<open>catch\<close>, which rethrows \<open>Failed to decrypt data\<close>; so does an exception of the library.
\<close>

definition decrypt :: "cryptoJS \<Rightarrow> jsString option \<Rightarrow> jsString \<Rightarrow> jsString throws" where
  "decrypt L env encryptedData =
     (case AES_decrypt_Utf8 L encryptedData (ENCRYPTION_KEY env) of
        None \<Rightarrow> Inl ''Failed to decrypt data''
      | Some decryptedString \<Rightarrow>
          if decryptedString = [] then Inl ''Failed to decrypt data''
          else Inr decryptedString)"

text \<open>
  The assignment \<open>decrypted[key] = value\<close> on the plain object \<open>decrypted\<close>, with a string
  as value: it creates or overwrites the property, except for the key \<open>__proto__\<close>, where
  the setter inherited from \<open>Object.prototype\<close> ignores a value that is neither an object
  nor \<open>null\<close> and no property is created.
\<close>

definition assignProperty ::
  "(jsString \<rightharpoonup> jsString) \<Rightarrow> jsString \<Rightarrow> jsString \<Rightarrow> (jsString \<rightharpoonup> jsString)" where
  "assignProperty obj key v = (if key = js ''__proto__'' then obj else obj(key \<mapsto> v))"

text \<open>
  \<open>decryptObject\<close>: the loop over \<open>Object.entries(encryptedObj)\<close>, with the object being
  built as accumulator. A JavaScript object is the list of its own entries (keys distinct);
  the result object is the map of its own properties.
\<close>

fun decryptObject_loop ::
  "cryptoJS \<Rightarrow> jsString option \<Rightarrow> (jsString \<times> jsString) list \<Rightarrow> (jsString \<rightharpoonup> jsString)
     \<Rightarrow> (jsString \<rightharpoonup> jsString)"
where
  "decryptObject_loop L env [] decrypted = decrypted"
| "decryptObject_loop L env ((key, v) # rest) decrypted =
     decryptObject_loop L env rest
       (if v \<noteq> [] then
          (case decrypt L env v of
             Inr plain \<Rightarrow> assignProperty decrypted key plain
           | Inl err \<Rightarrow> assignProperty decrypted key (js ''[DECRYPTION_FAILED]''))
        else decrypted)"

definition decryptObject ::
  "cryptoJS \<Rightarrow> jsString option \<Rightarrow> (jsString \<times> jsString) list \<Rightarrow> (jsString \<rightharpoonup> jsString)" where
  "decryptObject L env encryptedObj = decryptObject_loop L env encryptedObj Map.empty"

text \<open>
  The contract of the library that the round trip relies on: the passphrase is well formed,
  and the bytes that \<open>cipher\<close> encrypted under the passphrase, with whatever salt,
  \<open>decipher\<close> under the same passphrase gives back.
\<close>

definition cipher_roundtrip :: "cryptoJS \<Rightarrow> jsString \<Rightarrow> bool" where
  "cipher_roundtrip L k \<longleftrightarrow>
     (\<exists>pw. Utf8_parse k = Some pw \<and>
           (\<forall>message salt. decipher L (cipher L message pw salt) pw = Some message))"

text \<open>
  A small cipher that meets this contract for every well-formed passphrase, used to run the
  definitions on concrete inputs: the ciphertext is the passphrase bytes followed by the
  message bytes, one code unit per byte, and a text that does not start with the passphrase
  or holds a code unit above 255 does not decrypt.
\<close>

definition tagCipher :: cryptoJS where
  "tagCipher =
     \<lparr> cipher = (\<lambda>message pw salt. map (\<lambda>b. of_nat (unat b)) (pw @ message)),
       decipher = (\<lambda>text pw.
         if take (length pw) text = map (\<lambda>b. of_nat (unat b)) pw
            \<and> list_all (\<lambda>u. unat u < 256) (drop (length pw) text)
         then Some (map (\<lambda>u. of_nat (unat u)) (drop (length pw) text))
         else None) \<rparr>"

section \<open>Credential store (\<open>app/api/biometric-credentials/route.ts\<close>)\<close>

text \<open>A date is its \<open>getTime()\<close>: milliseconds since the epoch.\<close>

type_synonym date = int

text \<open>
  \<open>interface BiometricCredential\<close>: a document of the collection \<open>biometricCredentials\<close>
  together with its document id. \<open>POST\<close> writes every field but \<open>lastUsed\<close> and (when it is
  undefined) \<open>deviceInfo\<close>, so the defaults \<open>GET\<close> applies to absent \<open>counter\<close> and
  \<open>createdAt\<close> fields never change a document, and \<open>GET\<close> returns the documents as they are.
\<close>

record BiometricCredential =
  docId :: string
  userId :: string
  publicKey :: string
  credentialId :: string
  counter :: int
  createdAt :: date
  lastUsed :: "date option"
  deviceInfo :: "string option"

text \<open>
  The JavaScript test \<open>!x\<close> on a string that may be missing holds for \<open>undefined\<close>,
  \<open>null\<close> and the empty string; \<open>given x\<close> is the string when the test fails.
\<close>

definition given :: "string option \<Rightarrow> string option" where
  "given x = (case x of None \<Rightarrow> None | Some s \<Rightarrow> if s = [] then None else Some s)"

text \<open>\<open>a || b\<close> on strings.\<close>

definition orElse :: "string option \<Rightarrow> string \<Rightarrow> string" where
  "orElse x d = (case given x of None \<Rightarrow> d | Some s \<Rightarrow> s)"

text \<open>The JSON bodies the credential routes answer with.\<close>

datatype credentialsJson =
    ErrorJson string
  | CredentialsJson "BiometricCredential list"
  | StoredJson string string
  | MessageJson string

text \<open>A response: its status and its JSON body.\<close>

record 'j response =
  status :: nat
  json :: 'j

text \<open>\<open>Response.ok\<close>: the status is in the range 200 to 299.\<close>

definition ok :: "nat \<Rightarrow> bool" where
  "ok st \<longleftrightarrow> 200 \<le> st \<and> st \<le> 299"

text \<open>
  \<open>GET\<close>. \<open>dbOk\<close> is false when the Firestore call throws, which the handler turns into
  status 500. The arguments are \<open>searchParams.get("userId")\<close> and
  \<open>searchParams.get("credentialId")\<close>.
\<close>

definition GET_credentials ::
  "bool \<Rightarrow> string option \<Rightarrow> string option \<Rightarrow> BiometricCredential list \<Rightarrow> credentialsJson response"
where
  "GET_credentials dbOk userIdParam credentialIdParam db =
     (case (given userIdParam, given credentialIdParam) of
        (None, None) \<Rightarrow>
          \<lparr> status = 400, json = ErrorJson ''Either userId or credentialId is required'' \<rparr>
      | (u, Some c) \<Rightarrow>
          if \<not> dbOk then \<lparr> status = 500, json = ErrorJson ''Failed to fetch biometric credentials'' \<rparr>
          else \<lparr> status = 200, json = CredentialsJson (filter (\<lambda>d. credentialId d = c) db) \<rparr>
      | (Some u, None) \<Rightarrow>
          if \<not> dbOk then \<lparr> status = 500, json = ErrorJson ''Failed to fetch biometric credentials'' \<rparr>
          else \<lparr> status = 200, json = CredentialsJson (filter (\<lambda>d. userId d = u) db) \<rparr>)"

text \<open>
  The body of \<open>POST\<close>: \<open>{ userId, publicKey, credentialId, counter = 0, deviceInfo }\<close>.
\<close>

record storeRequest =
  reqUserId :: "string option"
  reqPublicKey :: "string option"
  reqCredentialId :: "string option"
  reqCounter :: "int option"
  reqDeviceInfo :: "string option"

text \<open>
  \<open>POST\<close>. \<open>newId\<close> is the id \<open>addDoc\<close> generates and \<open>now\<close> is \<open>new Date()\<close>. The
  handler returns the response; the collection after the call is the second component. (The
  new document is put last; where a query would enumerate it plays no role below.)
\<close>

definition POST_credentials ::
  "bool \<Rightarrow> string \<Rightarrow> date \<Rightarrow> storeRequest \<Rightarrow> BiometricCredential list
     \<Rightarrow> credentialsJson response \<times> BiometricCredential list"
where
  "POST_credentials dbOk newId now body db =
     (case (given (reqUserId body), given (reqPublicKey body), given (reqCredentialId body)) of
        (Some u, Some pk, Some c) \<Rightarrow>
          if \<not> dbOk then
            (\<lparr> status = 500, json = ErrorJson ''Failed to store biometric credential'' \<rparr>, db)
          else if filter (\<lambda>d. credentialId d = c) db \<noteq> [] then
            (\<lparr> status = 409, json = ErrorJson ''Credential already exists'' \<rparr>, db)
          else
            (\<lparr> status = 201, json = StoredJson newId ''Biometric credential stored successfully'' \<rparr>,
             db @ [\<lparr> docId = newId, userId = u, publicKey = pk, credentialId = c,
                     counter = (case reqCounter body of None \<Rightarrow> 0 | Some n \<Rightarrow> n),
                     createdAt = now, lastUsed = None, deviceInfo = reqDeviceInfo body \<rparr>])
      | _ \<Rightarrow>
          (\<lparr> status = 400, json = ErrorJson ''Missing required fields: userId, publicKey, credentialId'' \<rparr>,
           db))"

text \<open>
  \<open>updateDoc(querySnapshot.docs[0].ref, ..)\<close>: the first document that satisfies the query
  is rewritten, the others stay.
\<close>

fun updateFirst :: "('a \<Rightarrow> bool) \<Rightarrow> ('a \<Rightarrow> 'a) \<Rightarrow> 'a list \<Rightarrow> 'a list" where
  "updateFirst P f [] = []"
| "updateFirst P f (x # xs) = (if P x then f x # xs else x # updateFirst P f xs)"

text \<open>
  \<open>PUT\<close> with body \<open>{ credentialId, counter }\<close>; \<open>counterField\<close> is \<open>None\<close> when
  \<open>typeof counter !== "number"\<close>.
\<close>

definition PUT_credentials ::
  "bool \<Rightarrow> date \<Rightarrow> string option \<Rightarrow> int option \<Rightarrow> BiometricCredential list
     \<Rightarrow> credentialsJson response \<times> BiometricCredential list"
where
  "PUT_credentials dbOk now credentialIdField counterField db =
     (case (given credentialIdField, counterField) of
        (Some c, Some n) \<Rightarrow>
          if \<not> dbOk then
            (\<lparr> status = 500, json = ErrorJson ''Failed to update biometric credential'' \<rparr>, db)
          else if filter (\<lambda>d. credentialId d = c) db = [] then
            (\<lparr> status = 404, json = ErrorJson ''Credential not found'' \<rparr>, db)
          else
            (\<lparr> status = 200, json = MessageJson ''Credential updated successfully'' \<rparr>,
             updateFirst (\<lambda>d. credentialId d = c) (\<lambda>d. d\<lparr> counter := n, lastUsed := Some now \<rparr>) db)
      | _ \<Rightarrow>
          (\<lparr> status = 400, json = ErrorJson ''Missing required fields: credentialId, counter'' \<rparr>, db))"

section \<open>Biometric client (\<open>utils/biometricAuthClient.ts\<close>)\<close>

text \<open>
  What \<open>navigator.credentials.get\<close> does: it throws (no credential, cancel, timeout),
  resolves to \<open>null\<close>, or resolves to a credential, of which the code reads
  \<open>arrayBufferToBase64url(credential.rawId)\<close> (the first argument: a string over the
  letters, digits, \<open>-\<close> and \<open>_\<close>, which a query string carries unchanged) and
  \<open>response.signature\<close> (the bytes, second argument).
  \<open>navigator.credentials.create\<close> likewise; of the new credential the code reads the
  credential id and \<open>arrayBufferToBase64(response.getPublicKey())\<close>.
\<close>

datatype assertion = GetThrows string | GetNull | Asserted string "8 word list"

datatype attestation = CreateThrows string | CreateNull | Created string string

text \<open>
  What happens to one \<open>fetch\<close>: the request is served (\<open>Up\<close>), it is served but the
  handler's Firestore call throws (\<open>DbDown\<close>), or \<open>fetch\<close> itself rejects with a message.
\<close>

datatype net = Up | DbDown | Unreachable string

text \<open>The surroundings of one call of the client code.\<close>

record env =
  publicKeyCredential :: bool
  platformAuthenticator :: bool
  credentialsCreate :: attestation
  credentialsGet :: assertion
  userAgent :: string
  storeNet :: net
  lookupNet :: net
  updateNet :: net
  loginNet :: net
  getDocOk :: bool
  setDocOk :: bool
  updateDocOk :: bool
  addDocOk :: bool
  firestoreError :: string
  now :: date
  freshId :: string
  freshLogId :: string

text \<open>The result object \<open>{ success, credentialId?, userId?, error? }\<close>.\<close>

record BiometricAuthResult =
  success :: bool
  resultCredentialId :: "string option"
  resultUserId :: "string option"
  error :: "string option"

definition failed :: "string \<Rightarrow> BiometricAuthResult" where
  "failed msg = \<lparr> success = False, resultCredentialId = None, resultUserId = None, error = Some msg \<rparr>"

definition succeeded :: "string \<Rightarrow> string \<Rightarrow> BiometricAuthResult" where
  "succeeded cid uid =
     \<lparr> success = True, resultCredentialId = Some cid, resultUserId = Some uid, error = None \<rparr>"

text \<open>
  \<open>isBiometricAvailable\<close>, in a browser (\<open>window\<close> is defined).
\<close>

definition isBiometricAvailable :: "env \<Rightarrow> bool" where
  "isBiometricAvailable e = (if \<not> publicKeyCredential e then False else platformAuthenticator e)"

text \<open>
  \<open>BiometricAuthClient.registerBiometric\<close>. The whole body is inside \<open>try\<close>; the
  \<open>catch\<close> returns \<open>{ success: false, error: error.message }\<close>. The second component is
  the credential collection after the call.
\<close>

definition registerBiometric ::
  "env \<Rightarrow> string \<Rightarrow> string \<Rightarrow> string \<Rightarrow> BiometricCredential list
     \<Rightarrow> BiometricAuthResult \<times> BiometricCredential list"
where
  "registerBiometric e uid userName userDisplayName db =
     (if \<not> publicKeyCredential e then (failed ''WebAuthn is not supported in this browser'', db)
      else if \<not> platformAuthenticator e then
        (failed ''Biometric authentication is not available on this device'', db)
      else
        (case credentialsCreate e of
           CreateThrows msg \<Rightarrow> (failed msg, db)
         | CreateNull \<Rightarrow> (failed ''Failed to create credential'', db)
         | Created cid pk \<Rightarrow>
             (case storeNet e of
                Unreachable msg \<Rightarrow> (failed msg, db)
              | cond \<Rightarrow>
                  (case POST_credentials (cond = Up) (freshId e) (now e)
                          \<lparr> reqUserId = Some uid, reqPublicKey = Some pk, reqCredentialId = Some cid,
                            reqCounter = Some 0, reqDeviceInfo = Some (userAgent e) \<rparr> db of
                     (storeResponse, db') \<Rightarrow>
                       if \<not> ok (status storeResponse) then
                         (failed (case json storeResponse of
                                    ErrorJson err \<Rightarrow> orElse (Some err) ''Failed to store credential''
                                  | _ \<Rightarrow> ''Failed to store credential''), db')
                       else (succeeded cid uid, db')))))"

text \<open>
  \<open>BiometricAuthClient.authenticateUser\<close>. The counter sent to \<open>PUT\<close> is the constant
  \<open>0\<close> (\<open>const counter = 0; // Simplified for now\<close>); the response of the \<open>PUT\<close> is not
  looked at. The stored public key and the signature are never read. A response with a status
  in the range of \<open>ok\<close> always carries the list of credentials, so the last case below does
  not occur; on any other body the code would fail reading a property of \<open>undefined\<close>.
\<close>

definition authenticateUser ::
  "env \<Rightarrow> BiometricCredential list \<Rightarrow> BiometricAuthResult \<times> BiometricCredential list"
where
  "authenticateUser e db =
     (if \<not> publicKeyCredential e then (failed ''WebAuthn is not supported in this browser'', db)
      else
        (case credentialsGet e of
           GetThrows msg \<Rightarrow> (failed msg, db)
         | GetNull \<Rightarrow> (failed ''Authentication failed - no credential provided'', db)
         | Asserted cid signature \<Rightarrow>
             (case lookupNet e of
                Unreachable msg \<Rightarrow> (failed msg, db)
              | cond \<Rightarrow>
                  (let lookupResponse = GET_credentials (cond = Up) None (Some cid) db in
                   if \<not> ok (status lookupResponse) then (failed ''Failed to lookup credential'', db)
                   else
                     (case json lookupResponse of
                        CredentialsJson [] \<Rightarrow>
                          (failed ''No user found for this biometric credential'', db)
                      | CredentialsJson (userCredential # others) \<Rightarrow>
                          (case updateNet e of
                             Unreachable msg \<Rightarrow> (failed msg, db)
                           | cond' \<Rightarrow>
                               (succeeded cid (userId userCredential),
                                snd (PUT_credentials (cond' = Up) (now e) (Some cid) (Some 0) db)))
                      | _ \<Rightarrow> (failed ''Cannot read properties of undefined'', db))))))"

section \<open>The variant with its own initialisation (\<open>utils/biometricAuthServer.ts\<close>)\<close>

text \<open>
  \<open>initialize\<close>, in a browser: it throws unless WebAuthn and a platform authenticator are
  there, and sets \<open>isInitialized\<close> otherwise.
\<close>

definition initialize :: "env \<Rightarrow> unit throws" where
  "initialize e =
     (if \<not> publicKeyCredential e then Inl ''WebAuthn is not supported in this browser''
      else if \<not> isBiometricAvailable e then
        Inl ''Biometric authentication is not available on this device''
      else Inr ())"

text \<open>
  \<open>new Uint32Array(response.signature.slice(33, 37))[0] || 0\<close>: the slice has at most four
  bytes; the constructor throws a RangeError unless their number is a multiple of four; an
  empty array has no element \<open>0\<close>; four bytes are read in the byte order of the platform
  (little-endian).
\<close>

definition signatureCounter :: "8 word list \<Rightarrow> int throws" where
  "signatureCounter signature =
     (case take 4 (drop 33 signature) of
        [] \<Rightarrow> Inr 0
      | [b0, b1, b2, b3] \<Rightarrow>
          Inr (int (unat b0 + 256 * unat b1 + 65536 * unat b2 + 16777216 * unat b3))
      | _ \<Rightarrow> Inl ''byte length of Uint32Array should be a multiple of 4'')"

text \<open>
  \<open>BiometricAuthenticationServer.authenticateUser\<close>. \<open>initialize\<close> runs before the
  \<open>try\<close>, so its exception leaves the function; everything else is caught and returned as
  \<open>{ success: false, error: error.message || "Authentication failed" }\<close>. The result comes
  with the new value of \<open>isInitialized\<close> and the credential collection after the call.
  The source says at the place of the check: "In a production app, you would verify the
  signature here. For now, we'll trust the credential if it exists in our database".
\<close>

definition authenticateUserServer ::
  "env \<Rightarrow> bool \<Rightarrow> BiometricCredential list
     \<Rightarrow> (BiometricAuthResult \<times> bool \<times> BiometricCredential list) throws"
where
  "authenticateUserServer e isInitialized db =
     (case (if \<not> isInitialized then initialize e else Inr ()) of
        Inl msg \<Rightarrow> Inl msg
      | Inr _ \<Rightarrow>
          Inr
            (case credentialsGet e of
               GetThrows msg \<Rightarrow> (failed (orElse (Some msg) ''Authentication failed''), True, db)
             | GetNull \<Rightarrow> (failed ''Authentication failed - no credential provided'', True, db)
             | Asserted cid signature \<Rightarrow>
                 (case lookupNet e of
                    Unreachable msg \<Rightarrow> (failed (orElse (Some msg) ''Authentication failed''), True, db)
                  | cond \<Rightarrow>
                      (let lookupResponse = GET_credentials (cond = Up) None (Some cid) db in
                       if \<not> ok (status lookupResponse) then
                         (failed ''Failed to lookup credential'', True, db)
                       else
                         (case json lookupResponse of
                            CredentialsJson [] \<Rightarrow>
                              (failed ''No user found for this biometric credential'', True, db)
                          | CredentialsJson (userCredential # others) \<Rightarrow>
                              (case signatureCounter signature of
                                 Inl msg \<Rightarrow> (failed (orElse (Some msg) ''Authentication failed''), True, db)
                               | Inr n \<Rightarrow>
                                   (case updateNet e of
                                      Unreachable msg \<Rightarrow>
                                        (failed (orElse (Some msg) ''Authentication failed''), True, db)
                                    | cond' \<Rightarrow>
                                        (succeeded cid (userId userCredential), True,
                                         snd (PUT_credentials (cond' = Up) (now e) (Some cid) (Some n) db))))
                          | _ \<Rightarrow> (failed ''Cannot read properties of undefined'', True, db))))))"

section \<open>Session and audit (\<open>contexts/AuthContext.tsx\<close>, \<open>app/api/biometric-login/route.ts\<close>)\<close>

text \<open>The interfaces of \<open>types/index.ts\<close>.\<close>

record AuthMethod =
  methodType :: string
  enabled :: bool
  setupAt :: date
  lastUsedAt :: "date option"

record SecuritySettings =
  twoFactorEnabled :: bool
  faceRecognitionEnabled :: bool
  sessionTimeout :: nat
  autoLogout :: bool
  encryptionEnabled :: bool

record UserProfile =
  uid :: string
  email :: string
  displayName :: string
  photoURL :: "string option"
  profileCompleted :: bool
  profileCreatedAt :: date
  lastLoginAt :: date
  authMethods :: "AuthMethod list"
  securitySettings :: SecuritySettings

text \<open>
  Of a Firebase user the code reads these properties; the user object built after a
  biometric sign-in has them too (its token and metadata stubs are left out).
\<close>

record User =
  userUid :: string
  userEmail :: string
  userDisplayName :: "string option"
  userPhotoURL :: "string option"
  providerId :: string

text \<open>
  A document of the collection \<open>users\<close>, keyed by the uid: the profile that
  \<open>createUserProfile\<close> writes with \<open>setDoc\<close> (every field of it), and the field
  \<open>biometricCredentialId\<close> that enrollment adds. Since the profile is written whole, the
  defaults that readers apply to absent fields do not occur.
\<close>

record UserDoc =
  profileFields :: UserProfile
  biometricCredentialId :: "string option"

text \<open>
  \<open>interface SecurityLog\<close>: a document of the collection \<open>securityLogs\<close> with its id
  (\<open>logMethod\<close> is the field \<open>method\<close>, \<open>logSuccess\<close> the field \<open>success\<close>).
\<close>

record SecurityLog =
  logId :: string
  logUserId :: string
  action :: string
  logMethod :: string
  logSuccess :: bool
  ipAddress :: string
  logUserAgent :: string
  timestamp :: date
  location :: "string option"
  details :: "string option"

text \<open>
  The React state of \<open>AuthProvider\<close> (\<open>user\<close>, \<open>userProfile\<close>, \<open>loading\<close>) and the
  three Firestore collections.
\<close>

record world =
  user :: "User option"
  userProfile :: "UserProfile option"
  loading :: bool
  securityLogs :: "SecurityLog list"
  biometricCredentials :: "BiometricCredential list"
  users :: "string \<rightharpoonup> UserDoc"

text \<open>
  \<open>getUserProfile\<close>: an exception of \<open>getDoc\<close> is caught and gives \<open>null\<close>.
\<close>

definition getUserProfile :: "env \<Rightarrow> (string \<rightharpoonup> UserDoc) \<Rightarrow> string \<Rightarrow> UserProfile option" where
  "getUserProfile e usersCol uidArg =
     (if \<not> getDocOk e then None
      else (case usersCol uidArg of None \<Rightarrow> None | Some d \<Rightarrow> Some (profileFields d)))"

text \<open>
  \<open>createUserProfile\<close>: \<open>setDoc\<close> may throw, and then \<open>setUserProfile\<close> is not reached.
\<close>

definition createUserProfile :: "env \<Rightarrow> User \<Rightarrow> world \<Rightarrow> world throws" where
  "createUserProfile e u w =
     (let profile =
            \<lparr> uid = userUid u, email = userEmail u,
              displayName = orElse (userDisplayName u) [],
              photoURL = given (userPhotoURL u), profileCompleted = False,
              profileCreatedAt = now e, lastLoginAt = now e,
              authMethods =
                [\<lparr> methodType = (if userEmail u \<noteq> [] then ''email'' else ''google''),
                   enabled = True, setupAt = now e, lastUsedAt = None \<rparr>],
              securitySettings =
                \<lparr> twoFactorEnabled = False, faceRecognitionEnabled = False, sessionTimeout = 30,
                  autoLogout = True, encryptionEnabled = True \<rparr> \<rparr>
      in if \<not> setDocOk e then Inl (firestoreError e)
         else Inr (w\<lparr> users := (users w)(userUid u \<mapsto> \<lparr> profileFields = profile, biometricCredentialId = None \<rparr>),
                     userProfile := Some profile \<rparr>))"

text \<open>
  \<open>logSecurityEvent\<close>: \<open>logData\<close> is the document it builds (with its id), and
  \<open>u\<close> is the \<open>user\<close> of the render whose closure runs (a \<open>setUser\<close> made meanwhile is
  not seen by it). An exception of \<open>addDoc\<close> is caught and only printed, so the function
  never throws and then writes nothing.
\<close>

definition logData ::
  "env \<Rightarrow> User option \<Rightarrow> string \<Rightarrow> string \<Rightarrow> bool \<Rightarrow> string option \<Rightarrow> SecurityLog" where
  "logData e u act meth succ det =
     \<lparr> logId = freshLogId e,
       logUserId = (case u of None \<Rightarrow> ''anonymous'' | Some x \<Rightarrow> orElse (Some (userUid x)) ''anonymous''),
       action = act, logMethod = meth, logSuccess = succ, ipAddress = ''unknown'',
       logUserAgent = orElse (Some (userAgent e)) ''unknown'',
       timestamp = now e, location = None, details = det \<rparr>"

definition logSecurityEvent ::
  "env \<Rightarrow> User option \<Rightarrow> string \<Rightarrow> string \<Rightarrow> bool \<Rightarrow> string option \<Rightarrow> world \<Rightarrow> world" where
  "logSecurityEvent e u act meth succ det w =
     (if addDocOk e then w\<lparr> securityLogs := securityLogs w @ [logData e u act meth succ det] \<rparr>
      else w)"

text \<open>
  The \<open>try\<close> block of \<open>setupFaceAuth\<close> for the signed-in user \<open>u\<close>: the message thrown
  or normal completion, with the world at that point. \<open>w0\<close> is the world at the call, whose
  \<open>userProfile\<close> the closure reads. (The profile read again after \<open>createUserProfile\<close> is
  not used by the code.)
\<close>

definition setupFaceAuth_try :: "env \<Rightarrow> User \<Rightarrow> world \<Rightarrow> world \<Rightarrow> unit throws \<times> world" where
  "setupFaceAuth_try e u w0 w =
     (case (if getUserProfile e (users w) (userUid u) = None then createUserProfile e u w else Inr w) of
        Inl msg \<Rightarrow> (Inl msg, w)
      | Inr w1 \<Rightarrow>
          (case registerBiometric e (userUid u) (userEmail u) (orElse (userDisplayName u) ''User'')
                  (biometricCredentials w1) of
             (result, creds) \<Rightarrow>
               (let w2 = w1\<lparr> biometricCredentials := creds \<rparr> in
                if \<not> success result then
                  (Inl (orElse (error result) ''Failed to register biometric credential''), w2)
                else
                  (case (if updateDocOk e then users w2 (userUid u) else None) of
                     None \<Rightarrow> (Inl (firestoreError e), w2)
                   | Some d \<Rightarrow>
                       (let w3 = w2\<lparr> users := (users w2)(userUid u \<mapsto>
                                   d\<lparr> profileFields := (profileFields d)
                                          \<lparr> securitySettings := (securitySettings (profileFields d))
                                               \<lparr> faceRecognitionEnabled := True \<rparr> \<rparr>,
                                      biometricCredentialId := resultCredentialId result \<rparr>) \<rparr>;
                            w4 = (case userProfile w0 of
                                    None \<Rightarrow> w3
                                  | Some p \<Rightarrow>
                                      w3\<lparr> userProfile := Some (p\<lparr> securitySettings := (securitySettings p)
                                                                   \<lparr> faceRecognitionEnabled := True \<rparr> \<rparr>) \<rparr>)
                        in (Inr (),
                            logSecurityEvent e (Some u) ''face_auth'' ''face'' True
                              (Some ''Biometric authentication setup completed'') w4))))))"

text \<open>
  \<open>setupFaceAuth\<close>: the guard on \<open>user\<close> throws before the \<open>try\<close>; the \<open>catch\<close> logs
  the failure and returns \<open>false\<close>; \<open>finally\<close> resets \<open>loading\<close>.
\<close>

definition setupFaceAuth :: "env \<Rightarrow> world \<Rightarrow> bool throws \<times> world" where
  "setupFaceAuth e w =
     (case user w of
        None \<Rightarrow> (Inl ''User not authenticated'', w)
      | Some u \<Rightarrow>
          (case setupFaceAuth_try e u w (w\<lparr> loading := True \<rparr>) of
             (Inr _, w') \<Rightarrow> (Inr True, w'\<lparr> loading := False \<rparr>)
           | (Inl errorMessage, w') \<Rightarrow>
               (Inr False,
                (logSecurityEvent e (Some u) ''face_auth'' ''face'' False (Some errorMessage) w')
                  \<lparr> loading := False \<rparr>)))"

text \<open>The body of \<open>POST /api/biometric-login\<close>'s answer.\<close>

datatype loginJson = LoginError string | LoginUser UserProfile

definition POST_biometric_login ::
  "bool \<Rightarrow> string option \<Rightarrow> (string \<rightharpoonup> UserDoc) \<Rightarrow> loginJson response" where
  "POST_biometric_login dbOk userIdField usersCol =
     (case given userIdField of
        None \<Rightarrow> \<lparr> status = 400, json = LoginError ''User ID is required'' \<rparr>
      | Some u \<Rightarrow>
          if \<not> dbOk then \<lparr> status = 500, json = LoginError ''Failed to fetch user data'' \<rparr>
          else
            (case usersCol u of
               None \<Rightarrow> \<lparr> status = 404, json = LoginError ''User profile not found'' \<rparr>
             | Some d \<Rightarrow> \<lparr> status = 200, json = LoginUser ((profileFields d)\<lparr> uid := u \<rparr>) \<rparr>))"

text \<open>
  The \<open>try\<close> block of \<open>signInWithFace\<close>. \<open>w0\<close> is the world at the call, whose \<open>user\<close>
  the closure of \<open>logSecurityEvent\<close> reads. The creation date comes back as a Firestore
  timestamp, of which the code keeps the whole seconds.
\<close>

definition signInWithFace_try :: "env \<Rightarrow> world \<Rightarrow> world \<Rightarrow> unit throws \<times> world" where
  "signInWithFace_try e w0 w =
     (if \<not> isBiometricAvailable e then
        (Inl ''Biometric authentication is not available on this device'', w)
      else
        (case authenticateUser e (biometricCredentials w) of
           (result, creds) \<Rightarrow>
             (let w1 = w\<lparr> biometricCredentials := creds \<rparr> in
              if \<not> success result then
                (Inl (orElse (error result) ''Biometric authentication failed''), w1)
              else
                (case given (resultUserId result) of
                   None \<Rightarrow> (Inl ''No user ID returned from biometric authentication'', w1)
                 | Some resolved \<Rightarrow>
                     (case loginNet e of
                        Unreachable msg \<Rightarrow> (Inl msg, w1)
                      | cond \<Rightarrow>
                          (let userResponse = POST_biometric_login (cond = Up) (Some resolved) (users w1) in
                           if \<not> ok (status userResponse) then
                             (Inl (case json userResponse of
                                     LoginError err \<Rightarrow> orElse (Some err) ''Failed to fetch user data''
                                   | _ \<Rightarrow> ''Failed to fetch user data''), w1)
                           else
                             (case json userResponse of
                                LoginError err \<Rightarrow> (Inl ''Cannot read properties of undefined'', w1)
                              | LoginUser userData \<Rightarrow>
                                  (let authenticatedUser =
                                         \<lparr> userUid = resolved, userEmail = email userData,
                                           userDisplayName = Some (displayName userData),
                                           userPhotoURL = given (photoURL userData),
                                           providerId = ''biometric'' \<rparr>;
                                       authenticatedProfile =
                                         \<lparr> uid = resolved, email = email userData,
                                           displayName = displayName userData,
                                           photoURL = photoURL userData,
                                           profileCompleted = profileCompleted userData,
                                           profileCreatedAt = (profileCreatedAt userData div 1000) * 1000,
                                           lastLoginAt = now e,
                                           authMethods = authMethods userData,
                                           securitySettings = securitySettings userData \<rparr>;
                                       w2 = w1\<lparr> user := Some authenticatedUser,
                                                userProfile := Some authenticatedProfile \<rparr>
                                   in (Inr (),
                                       logSecurityEvent e (user w0) ''login'' ''face'' True
                                         (Some ''Biometric authentication successful'') w2)))))))))"

text \<open>
  \<open>signInWithFace\<close>: the \<open>catch\<close> logs the failure and throws the message again;
  \<open>finally\<close> resets \<open>loading\<close>.
\<close>

definition signInWithFace :: "env \<Rightarrow> world \<Rightarrow> bool throws \<times> world" where
  "signInWithFace e w =
     (case signInWithFace_try e w (w\<lparr> loading := True \<rparr>) of
        (Inr _, w') \<Rightarrow> (Inr True, w'\<lparr> loading := False \<rparr>)
      | (Inl errorMessage, w') \<Rightarrow>
          (Inl errorMessage,
           (logSecurityEvent e (user w) ''login'' ''face'' False (Some errorMessage) w')
             \<lparr> loading := False \<rparr>))"

section \<open>Audit log query (\<open>app/api/security-logs/route.ts\<close>)\<close>

text \<open>
  \<open>parseInt(string)\<close> of ECMAScript, without a radix argument: leading white space is
  skipped, a sign is read, \<open>0x\<close> or \<open>0X\<close> selects radix 16, the longest prefix of digits
  of the radix is the number, and there is no number (\<open>NaN\<close>, here \<open>None\<close>) when that prefix
  is empty. The result is the exact integer; JavaScript rounds integers beyond \<open>2^53\<close>,
  which does not change how they compare with 0 and 100.
\<close>

definition isWhiteSpace :: "char \<Rightarrow> bool" where
  "isWhiteSpace c \<longleftrightarrow> (of_char c :: nat) \<in> {9, 10, 11, 12, 13, 32, 160}"

definition digitValue :: "char \<Rightarrow> nat option" where
  "digitValue c =
     (let n = (of_char c :: nat) in
      if 48 \<le> n \<and> n \<le> 57 then Some (n - 48)
      else if 97 \<le> n \<and> n \<le> 122 then Some (n - 87)
      else if 65 \<le> n \<and> n \<le> 90 then Some (n - 55)
      else None)"

definition isDigit :: "nat \<Rightarrow> char \<Rightarrow> bool" where
  "isDigit R c = (case digitValue c of None \<Rightarrow> False | Some d \<Rightarrow> d < R)"

definition digitsValue :: "nat \<Rightarrow> string \<Rightarrow> nat" where
  "digitsValue R Z = foldl (\<lambda>acc c. acc * R + (case digitValue c of None \<Rightarrow> 0 | Some d \<Rightarrow> d)) 0 Z"

definition parseInt :: "string \<Rightarrow> int option" where
  "parseInt inputString =
     (let S = dropWhile isWhiteSpace inputString;
          negative = (take 1 S = ''-'');
          S1 = (if take 1 S = ''+'' \<or> take 1 S = ''-'' then drop 1 S else S);
          hex = (take 2 S1 = ''0x'' \<or> take 2 S1 = ''0X'');
          R = (if hex then 16 else 10);
          S2 = (if hex then drop 2 S1 else S1);
          Z = takeWhile (isDigit R) S2
      in if Z = [] then None
         else Some (if negative then - int (digitsValue R Z) else int (digitsValue R Z)))"

datatype logsJson = LogsError string | LogsJson "SecurityLog list"

text \<open>
  \<open>GET\<close>. The arguments are the query parameters \<open>userId\<close>, \<open>limit\<close> and \<open>action\<close>.
  For each document of the query the handler builds a new object from the document id and
  the fields \<open>userId\<close>, \<open>action\<close>, \<open>method\<close>, \<open>success\<close>, \<open>timestamp\<close>,
  \<open>ipAddress\<close>, \<open>userAgent\<close> and \<open>details\<close>; the field \<open>location\<close> of the stored
  document is not copied. (Every writer of the collection sets \<open>timestamp\<close>, so the default
  the handler has for a document without one does not occur.)
  \<open>Array.prototype.sort\<close> is stable, and so is \<open>sort_key\<close>; the comparator
  \<open>b.timestamp - a.timestamp\<close> orders by descending timestamp.
\<close>

definition GET_security_logs ::
  "bool \<Rightarrow> string option \<Rightarrow> string option \<Rightarrow> string option \<Rightarrow> SecurityLog list \<Rightarrow> logsJson response"
where
  "GET_security_logs dbOk userIdParam limitParam actionParam logsCol =
     (let limitCount = parseInt (orElse limitParam ''50'') in
      case given userIdParam of
        None \<Rightarrow> \<lparr> status = 400, json = LogsError ''User ID is required'' \<rparr>
      | Some u \<Rightarrow>
          if \<not> dbOk then \<lparr> status = 500, json = LogsError ''Failed to fetch security logs'' \<rparr>
          else
            (let logs = map (\<lambda>d. d\<lparr> location := None \<rparr>)
                          (filter (\<lambda>l. logUserId l = u \<and>
                                       (case given actionParam of None \<Rightarrow> True | Some a \<Rightarrow> action l = a))
                             logsCol);
                 sortedLogs = sort_key (\<lambda>l. - timestamp l) logs;
                 limitedLogs =
                   (case limitCount of
                      None \<Rightarrow> sortedLogs
                    | Some n \<Rightarrow> if n > 0 \<and> n \<le> 100 then take (nat n) sortedLogs else sortedLogs)
             in \<lparr> status = 200, json = LogsJson limitedLogs \<rparr>))"

section \<open>Notions used in the statements\<close>

text \<open>A credential document with its public key blanked: what remains when the key is ignored.\<close>

definition samePublic :: "BiometricCredential \<Rightarrow> BiometricCredential" where
  "samePublic d = d\<lparr> publicKey := [] \<rparr>"

text \<open>
  What a call of \<open>logSecurityEvent\<close> for the document \<open>ev\<close> adds to the audit collection:
  the document when \<open>addDoc\<close> succeeds, nothing when it throws.
\<close>

definition written :: "env \<Rightarrow> SecurityLog \<Rightarrow> SecurityLog list" where
  "written e ev = (if addDocOk e then [ev] else [])"

section \<open>Concrete inputs\<close>

text \<open>
  A browser with WebAuthn and a platform authenticator in which every request is served,
  with the given outcome of the assertion ceremony; a stored credential of user \<open>u1\<close> with
  the given counter; a world in which nobody is signed in; a Firebase user; an audit document
  with the given id, user and timestamp.
\<close>

definition demoEnv :: "assertion \<Rightarrow> env" where
  "demoEnv a =
     \<lparr> publicKeyCredential = True, platformAuthenticator = True,
       credentialsCreate = Created ''cred2'' ''pk2'', credentialsGet = a,
       userAgent = ''Mozilla/5.0'', storeNet = Up, lookupNet = Up, updateNet = Up, loginNet = Up,
       getDocOk = True, setDocOk = True, updateDocOk = True, addDocOk = True,
       firestoreError = ''unavailable'', now = 1700000000000,
       freshId = ''doc2'', freshLogId = ''log1'' \<rparr>"

definition demoCredential :: "int \<Rightarrow> BiometricCredential" where
  "demoCredential n =
     \<lparr> docId = ''doc1'', userId = ''u1'', publicKey = ''pk1'', credentialId = ''cred1'',
       counter = n, createdAt = 1600000000000, lastUsed = None, deviceInfo = Some ''Mozilla/5.0'' \<rparr>"

definition demoWorld :: "BiometricCredential list \<Rightarrow> world" where
  "demoWorld creds =
     \<lparr> user = None, userProfile = None, loading = False, securityLogs = [],
       biometricCredentials = creds, users = Map.empty \<rparr>"

definition demoUser :: User where
  "demoUser =
     \<lparr> userUid = ''u1'', userEmail = ''u1@example.org'', userDisplayName = Some ''Ann'',
       userPhotoURL = None, providerId = ''password'' \<rparr>"

definition demoLog :: "string \<Rightarrow> string \<Rightarrow> date \<Rightarrow> SecurityLog" where
  "demoLog i u t =
     \<lparr> logId = i, logUserId = u, action = ''login'', logMethod = ''face'', logSuccess = True,
       ipAddress = ''unknown'', logUserAgent = ''Mozilla/5.0'', timestamp = t, location = None,
       details = None \<rparr>"

section \<open>Properties of the field cipher\<close>

subsection \<open>The codec\<close>

lemma unat8: "n < 256 \<Longrightarrow> unat (of_nat n :: 8 word) = n"
  by (simp add: unat_of_nat)

lemma unat16: "n < 65536 \<Longrightarrow> unat (of_nat n :: 16 word) = n"
  by (simp add: unat_of_nat)

lemma unat16_bound: "unat (u :: 16 word) < 65536"
  using unsigned_less [of u, where 'a = nat] by simp

lemma unat8_bound: "unat (b :: 8 word) < 256"
  using unsigned_less [of b, where 'a = nat] by simp

lemma utf8_bytes_nonempty: "utf8_bytes cp \<noteq> []"
  by (simp add: utf8_bytes_def)

lemma stringify_bytes1:
  assumes "cp < 0x80"
  shows "Utf8_stringify (utf8_bytes cp @ rest) = map_option ((@) (codeUnits cp)) (Utf8_stringify rest)"
  using assms by (simp add: utf8_bytes_def unat8)

lemma stringify_bytes2:
  assumes "0x80 \<le> cp" and "cp < 0x800"
  shows "Utf8_stringify (utf8_bytes cp @ rest) = map_option ((@) (codeUnits cp)) (Utf8_stringify rest)"
proof -
  define B0 :: "8 word" where "B0 = of_nat (0xC0 + cp div 64)"
  define B1 :: "8 word" where "B1 = of_nat (0x80 + cp mod 64)"
  have d: "cp div 64 < 32" using assms by simp
  have u0: "unat B0 = 0xC0 + cp div 64"
    unfolding B0_def using d by (intro unat8) simp
  have u1: "unat B1 = 0x80 + cp mod 64"
    unfolding B1_def by (intro unat8) (simp add: less_le_trans [OF mod_less_divisor])
  have ub: "utf8_bytes cp = [B0, B1]"
    using assms unfolding utf8_bytes_def B0_def B1_def by simp
  have cp: "cp div 64 * 64 + cp mod 64 = cp" by simp
  have m: "cp mod 64 \<le> 63" using mod_less_divisor [of 64 cp] by linarith
  show ?thesis
    unfolding ub using assms d m cp by (simp add: u0 u1 continuation_def)
qed

lemma stringify_bytes3:
  assumes "0x800 \<le> cp" and "cp < 0x10000" and "\<not> (0xD800 \<le> cp \<and> cp \<le> 0xDFFF)"
  shows "Utf8_stringify (utf8_bytes cp @ rest) = map_option ((@) (codeUnits cp)) (Utf8_stringify rest)"
proof -
  define B0 :: "8 word" where "B0 = of_nat (0xE0 + cp div 4096)"
  define B1 :: "8 word" where "B1 = of_nat (0x80 + cp div 64 mod 64)"
  define B2 :: "8 word" where "B2 = of_nat (0x80 + cp mod 64)"
  have d: "cp div 4096 < 16" using assms by simp
  have u0: "unat B0 = 0xE0 + cp div 4096"
    unfolding B0_def using d by (intro unat8) simp
  have u1: "unat B1 = 0x80 + cp div 64 mod 64"
    unfolding B1_def by (intro unat8) (simp add: less_le_trans [OF mod_less_divisor])
  have u2: "unat B2 = 0x80 + cp mod 64"
    unfolding B2_def by (intro unat8) (simp add: less_le_trans [OF mod_less_divisor])
  have ub: "utf8_bytes cp = [B0, B1, B2]"
    using assms unfolding utf8_bytes_def B0_def B1_def B2_def by simp
  have cp: "cp div 4096 * 4096 + cp div 64 mod 64 * 64 + cp mod 64 = cp"
  proof -
    have "cp mod (64 * 64) = 64 * (cp div 64 mod 64) + cp mod 64" by (rule mod_mult2_eq)
    then have "cp mod 4096 = cp div 64 mod 64 * 64 + cp mod 64" by simp
    moreover have "cp div 4096 * 4096 + cp mod 4096 = cp" by simp
    ultimately show ?thesis by linarith
  qed
  have m: "cp mod 64 \<le> 63" "cp div 64 mod 64 \<le> 63"
    using mod_less_divisor [of 64 cp] mod_less_divisor [of 64 "cp div 64"] by linarith+
  show ?thesis
    unfolding ub using assms d m cp by (simp add: u0 u1 u2 continuation_def)
qed

lemma stringify_bytes4:
  assumes "0x10000 \<le> cp" and "cp \<le> 0x10FFFF"
  shows "Utf8_stringify (utf8_bytes cp @ rest) = map_option ((@) (codeUnits cp)) (Utf8_stringify rest)"
proof -
  define B0 :: "8 word" where "B0 = of_nat (0xF0 + cp div 262144)"
  define B1 :: "8 word" where "B1 = of_nat (0x80 + cp div 4096 mod 64)"
  define B2 :: "8 word" where "B2 = of_nat (0x80 + cp div 64 mod 64)"
  define B3 :: "8 word" where "B3 = of_nat (0x80 + cp mod 64)"
  have d: "cp div 262144 < 5" using assms by simp
  have u0: "unat B0 = 0xF0 + cp div 262144"
    unfolding B0_def using d by (intro unat8) simp
  have u1: "unat B1 = 0x80 + cp div 4096 mod 64"
    unfolding B1_def by (intro unat8) (simp add: less_le_trans [OF mod_less_divisor])
  have u2: "unat B2 = 0x80 + cp div 64 mod 64"
    unfolding B2_def by (intro unat8) (simp add: less_le_trans [OF mod_less_divisor])
  have u3: "unat B3 = 0x80 + cp mod 64"
    unfolding B3_def by (intro unat8) (simp add: less_le_trans [OF mod_less_divisor])
  have ub: "utf8_bytes cp = [B0, B1, B2, B3]"
    using assms unfolding utf8_bytes_def B0_def B1_def B2_def B3_def by simp
  have cp: "cp div 262144 * 262144 + cp div 4096 mod 64 * 4096 + cp div 64 mod 64 * 64 + cp mod 64 = cp"
  proof -
    have "cp mod (64 * 64) = 64 * (cp div 64 mod 64) + cp mod 64" by (rule mod_mult2_eq)
    then have a: "cp mod 4096 = cp div 64 mod 64 * 64 + cp mod 64" by simp
    have "cp mod (4096 * 64) = 4096 * (cp div 4096 mod 64) + cp mod 4096" by (rule mod_mult2_eq)
    then have b: "cp mod 262144 = cp div 4096 mod 64 * 4096 + cp mod 4096" by simp
    have "cp div 262144 * 262144 + cp mod 262144 = cp" by simp
    with a b show ?thesis by linarith
  qed
  have m: "cp mod 64 \<le> 63" "cp div 64 mod 64 \<le> 63" "cp div 4096 mod 64 \<le> 63"
    using mod_less_divisor [of 64 cp] mod_less_divisor [of 64 "cp div 64"]
      mod_less_divisor [of 64 "cp div 4096"] by linarith+
  show ?thesis
    unfolding ub using assms d m cp by (simp add: u0 u1 u2 u3 continuation_def)
qed

text \<open>Decoding the bytes of a code point that is not a surrogate gives its code units.\<close>

lemma stringify_bytes:
  assumes "cp \<le> 0x10FFFF" and "\<not> (0xD800 \<le> cp \<and> cp \<le> 0xDFFF)"
  shows "Utf8_stringify (utf8_bytes cp @ rest) = map_option ((@) (codeUnits cp)) (Utf8_stringify rest)"
proof -
  consider "cp < 0x80" | "0x80 \<le> cp \<and> cp < 0x800" | "0x800 \<le> cp \<and> cp < 0x10000" | "0x10000 \<le> cp"
    by linarith
  then show ?thesis
  proof cases
    case 1 then show ?thesis by (rule stringify_bytes1)
  next
    case 2 then show ?thesis by (intro stringify_bytes2) simp_all
  next
    case 3 with assms(2) show ?thesis by (intro stringify_bytes3) simp_all
  next
    case 4 with assms(1) show ?thesis by (intro stringify_bytes4) simp_all
  qed
qed

lemma codeUnits_unit:
  "\<not> isLowSurrogate u \<Longrightarrow> \<not> isHighSurrogate u \<Longrightarrow> codeUnits (unat u) = [u]"
  using unat16_bound [of u] by (simp add: codeUnits_def)

lemma codeUnits_pair:
  assumes "isHighSurrogate u" and "isLowSurrogate l"
  shows "codeUnits (0x10000 + (unat u - 0xD800) * 0x400 + (unat l - 0xDC00)) = [u, l]"
proof -
  let ?h = "unat u - 0xD800" and ?l = "unat l - 0xDC00"
  from assms have h: "?h < 0x400" and l: "?l < 0x400"
    and hu: "0xD800 + ?h = unat u" and lu: "0xDC00 + ?l = unat l"
    unfolding isHighSurrogate_def isLowSurrogate_def by linarith+
  have dv: "(?h * 0x400 + ?l) div 0x400 = ?h" using l by simp
  have md: "(?h * 0x400 + ?l) mod 0x400 = ?l" using l by simp
  have "codeUnits (0x10000 + ?h * 0x400 + ?l)
        = [of_nat (0xD800 + (?h * 0x400 + ?l) div 0x400), of_nat (0xDC00 + (?h * 0x400 + ?l) mod 0x400)]"
    by (simp add: codeUnits_def)
  also have "\<dots> = [of_nat (unat u), of_nat (unat l)]"
    by (simp only: dv md hu lu)
  finally show ?thesis by simp
qed

lemma surrogate_pair_scalar:
  assumes "isHighSurrogate u" and "isLowSurrogate l"
  shows "0x10000 + (unat u - 0xD800) * 0x400 + (unat l - 0xDC00) \<le> 0x10FFFF"
    and "\<not> (0xD800 \<le> 0x10000 + (unat u - 0xD800) * 0x400 + (unat l - 0xDC00) \<and>
            0x10000 + (unat u - 0xD800) * 0x400 + (unat l - 0xDC00) \<le> 0xDFFF)"
  using assms unfolding isHighSurrogate_def isLowSurrogate_def by linarith+

text \<open>What \<open>Utf8.parse\<close> encoded, \<open>Utf8.stringify\<close> decodes to the same string.\<close>

lemma Utf8_roundtrip:
  "Utf8_parse s = Some bs \<Longrightarrow> Utf8_stringify bs = Some s"
proof (induction s arbitrary: bs rule: Utf8_parse.induct)
  case 1
  then show ?case by simp
next
  case (2 u us)
  show ?case
  proof (cases "isLowSurrogate u")
    case True
    with "2.prems" show ?thesis by simp
  next
    case low: False
    show ?thesis
    proof (cases "isHighSurrogate u")
      case high: True
      with low "2.prems" obtain l rest where us: "us = l # rest" and ll: "isLowSurrogate l"
        by (cases us) (auto split: if_splits)
      let ?cp = "0x10000 + (unat u - 0xD800) * 0x400 + (unat l - 0xDC00)"
      from low high us ll "2.prems" obtain r where r: "Utf8_parse rest = Some r"
        and bs: "bs = utf8_bytes ?cp @ r" by auto
      from "2.IH"(1) [OF low high us ll r] have ih: "Utf8_stringify r = Some rest" .
      show ?thesis
        unfolding bs
        by (simp only: stringify_bytes [OF surrogate_pair_scalar [OF high ll]] ih
              codeUnits_pair [OF high ll] us) simp
    next
      case nohigh: False
      from low nohigh "2.prems" obtain r where r: "Utf8_parse us = Some r"
        and bs: "bs = utf8_bytes (unat u) @ r" by auto
      from "2.IH"(2) [OF low nohigh r] have ih: "Utf8_stringify r = Some us" .
      have sc: "unat u \<le> 0x10FFFF" "\<not> (0xD800 \<le> unat u \<and> unat u \<le> 0xDFFF)"
        using unat16_bound [of u] low nohigh
        by (auto simp: isHighSurrogate_def isLowSurrogate_def)
      show ?thesis
        unfolding bs
        by (simp only: stringify_bytes [OF sc] ih codeUnits_unit [OF low nohigh]) simp
    qed
  qed
qed

text \<open>\<open>Utf8.parse\<close> throws exactly on the strings that are not well formed.\<close>

lemma Utf8_parse_wellFormed: "(\<exists>bs. Utf8_parse s = Some bs) \<longleftrightarrow> wellFormed s"
  by (induction s rule: Utf8_parse.induct) (auto split: list.splits)

lemma Utf8_parse_ill_formed: "\<not> wellFormed s \<Longrightarrow> Utf8_parse s = None"
  using Utf8_parse_wellFormed [of s] by (cases "Utf8_parse s") auto

lemma Utf8_parse_empty: "Utf8_parse s = Some [] \<longleftrightarrow> s = []"
proof (cases s)
  case Nil
  then show ?thesis by simp
next
  case (Cons u us)
  then show ?thesis
    by (auto simp: utf8_bytes_nonempty split: if_splits list.splits)
qed

text \<open>A literal of characters below 256 holds no surrogate.\<close>

lemma wellFormed_js: "wellFormed (js s)"
proof (induction s)
  case Nil
  then show ?case by (simp add: js_def)
next
  case (Cons c cs)
  have lt: "(of_char c :: nat) < 256"
    using of_char_mod_256 [of c, where 'a = nat] mod_less_divisor [of 256 "of_char c"]
    by (metis zero_less_numeral)
  have "unat (of_nat (of_char c) :: 16 word) = of_char c"
    by (rule unat16) (use lt in linarith)
  with lt have "unat (of_nat (of_char c) :: 16 word) < 256"
    by (simp only:)
  then have "\<not> isLowSurrogate (of_nat (of_char c))" "\<not> isHighSurrogate (of_nat (of_char c))"
    by (simp_all add: isLowSurrogate_def isHighSurrogate_def)
  with Cons show ?case by (simp add: js_def)
qed

subsection \<open>\<open>encrypt\<close> and \<open>decrypt\<close>\<close>

lemma decrypt_not_empty: "decrypt L env c \<noteq> Inr []"
  by (simp add: decrypt_def split: option.splits)

lemma tagCipher_bytes:
  "decipher tagCipher (cipher tagCipher message pw salt) pw = Some message"
proof -
  have small: "unat (of_nat (unat b) :: 16 word) = unat b" for b :: "8 word"
    using unat8_bound [of b] by (intro unat16) simp
  then have small': "unat (ucast b :: 16 word) = unat b" for b :: "8 word"
    using small [of b] by simp
  have rt: "(ucast (ucast b :: 16 word) :: 8 word) = b" for b :: "8 word"
  proof -
    have "(of_nat (unat (ucast b :: 16 word)) :: 8 word) = of_nat (unat b)"
      by (simp only: small')
    then show ?thesis by simp
  qed
  have "list_all (\<lambda>u. unat u < 256) (map (\<lambda>b. ucast b :: 16 word) message)"
    by (simp add: list_all_iff small' unat8_bound)
  moreover have
    "map (\<lambda>u. ucast u :: 8 word) (map (\<lambda>b. ucast b :: 16 word) message) = message"
    by (simp add: rt comp_def)
  ultimately show ?thesis by (simp add: tagCipher_def comp_def)
qed

lemma tagCipher_roundtrip: "wellFormed k \<Longrightarrow> cipher_roundtrip tagCipher k"
  using Utf8_parse_wellFormed [of k] by (auto simp: cipher_roundtrip_def tagCipher_bytes)

text \<open>
  Claim C3, as amended. Let the static key be well formed and let the cipher of the library
  decrypt, under the key, the bytes it encrypted under it. Then for every string \<open>s\<close> that is
  not empty and has no unpaired surrogate, \<open>encrypt\<close> returns a ciphertext and \<open>decrypt\<close>
  of that ciphertext returns exactly \<open>s\<close>; and for every string with an unpaired surrogate
  \<open>encrypt\<close> throws \<open>Failed to encrypt data\<close>.
\<close>

theorem decrypt_encrypt_nonempty:
  assumes "cipher_roundtrip L (ENCRYPTION_KEY env)"
  shows "(wellFormed s \<and> s \<noteq> [] \<longrightarrow>
            (\<exists>c. encrypt L env salt s = Inr c \<and> decrypt L env c = Inr s)) \<and>
         (\<not> wellFormed s \<longrightarrow> encrypt L env salt s = Inl ''Failed to encrypt data'')"
proof -
  from assms obtain pw where pw: "Utf8_parse (ENCRYPTION_KEY env) = Some pw"
    and rt: "\<And>message. decipher L (cipher L message pw salt) pw = Some message"
    unfolding cipher_roundtrip_def by blast
  show ?thesis
  proof (intro conjI impI)
    assume s: "wellFormed s \<and> s \<noteq> []"
    then obtain message where m: "Utf8_parse s = Some message"
      using Utf8_parse_wellFormed [of s] by blast
    have dec: "Utf8_stringify message = Some s" using m by (rule Utf8_roundtrip)
    have e: "encrypt L env salt s = Inr (cipher L message pw salt)"
      by (simp add: encrypt_def AES_encrypt_def pw m)
    have "AES_decrypt_Utf8 L (cipher L message pw salt) (ENCRYPTION_KEY env) = Some s"
      by (simp add: AES_decrypt_Utf8_def pw rt dec)
    with s have "decrypt L env (cipher L message pw salt) = Inr s"
      by (simp add: decrypt_def)
    with e show "\<exists>c. encrypt L env salt s = Inr c \<and> decrypt L env c = Inr s" by blast
  next
    assume "\<not> wellFormed s"
    then have "Utf8_parse s = None" by (rule Utf8_parse_ill_formed)
    then show "encrypt L env salt s = Inl ''Failed to encrypt data''"
      by (simp add: encrypt_def AES_encrypt_def pw)
  qed
qed

text \<open>
  The theorem at the card number of the specification's scenario, under the default key, and
  at a string that is a single high surrogate.
\<close>

theorem decrypt_encrypt_nonempty_witness:
  "cipher_roundtrip tagCipher (ENCRYPTION_KEY None) \<and>
   wellFormed (js ''4111111111111111'') \<and> js ''4111111111111111'' \<noteq> [] \<and>
   (\<exists>c. encrypt tagCipher None [1, 2, 3, 4, 5, 6, 7, 8] (js ''4111111111111111'') = Inr c \<and>
        decrypt tagCipher None c = Inr (js ''4111111111111111'')) \<and>
   \<not> wellFormed [0xD800] \<and>
   encrypt tagCipher None [1, 2, 3, 4, 5, 6, 7, 8] [0xD800] = Inl ''Failed to encrypt data''"
proof -
  have k: "wellFormed (ENCRYPTION_KEY None)" by (simp add: ENCRYPTION_KEY_def wellFormed_js)
  have h1: "cipher_roundtrip tagCipher (ENCRYPTION_KEY None)"
    using k by (rule tagCipher_roundtrip)
  have h2: "wellFormed (js ''4111111111111111'')" by (rule wellFormed_js)
  have h3: "js ''4111111111111111'' \<noteq> []" by (simp add: js_def)
  have h4: "\<not> wellFormed [0xD800]" by (simp add: isLowSurrogate_def isHighSurrogate_def)
  from decrypt_encrypt_nonempty [OF h1, of "js ''4111111111111111''" "[1, 2, 3, 4, 5, 6, 7, 8]"]
       decrypt_encrypt_nonempty [OF h1, of "[0xD800]" "[1, 2, 3, 4, 5, 6, 7, 8]"]
       h1 h2 h3 h4
  show ?thesis by blast
qed

text \<open>
  Claim C3 as stated fails at the empty string: its encryption is a ciphertext, which the
  library decrypts to the empty string, and \<open>decrypt\<close> throws on it. It also fails at a
  string that is a single high surrogate, on which \<open>encrypt\<close> throws.
\<close>

theorem roundtrip_empty_counterexample:
  "encrypt tagCipher (Some (js ''k1'')) [1, 2, 3, 4, 5, 6, 7, 8] [] = Inr (js ''k1'') \<and>
   AES_decrypt_Utf8 tagCipher (js ''k1'') (ENCRYPTION_KEY (Some (js ''k1''))) = Some [] \<and>
   decrypt tagCipher (Some (js ''k1'')) (js ''k1'') = Inl ''Failed to decrypt data'' \<and>
   encrypt tagCipher (Some (js ''k1'')) [1, 2, 3, 4, 5, 6, 7, 8] [0xD800] = Inl ''Failed to encrypt data''"
  by (simp add: encrypt_def decrypt_def AES_encrypt_def AES_decrypt_Utf8_def tagCipher_def
        ENCRYPTION_KEY_def js_def utf8_bytes_def isLowSurrogate_def isHighSurrogate_def)

text \<open>
  Claim C9. Whenever the library's decryption under the static key yields the empty string,
  \<open>decrypt\<close> throws \<open>Failed to decrypt data\<close>; the empty string is never returned by
  \<open>decrypt\<close>; and for a library that decrypts what it encrypted, this is what happens to the
  encryption of the empty string.
\<close>

theorem decrypt_rejects_empty:
  "(AES_decrypt_Utf8 L c (ENCRYPTION_KEY env) = Some [] \<longrightarrow>
      decrypt L env c = Inl ''Failed to decrypt data'') \<and>
   decrypt L env c \<noteq> Inr [] \<and>
   (cipher_roundtrip L (ENCRYPTION_KEY env) \<longrightarrow>
      (\<exists>c0. encrypt L env salt [] = Inr c0 \<and> decrypt L env c0 = Inl ''Failed to decrypt data''))"
proof (intro conjI impI)
  assume "AES_decrypt_Utf8 L c (ENCRYPTION_KEY env) = Some []"
  then show "decrypt L env c = Inl ''Failed to decrypt data''" by (simp add: decrypt_def)
next
  show "decrypt L env c \<noteq> Inr []" by (rule decrypt_not_empty)
next
  assume "cipher_roundtrip L (ENCRYPTION_KEY env)"
  then obtain pw where pw: "Utf8_parse (ENCRYPTION_KEY env) = Some pw"
    and rt: "decipher L (cipher L [] pw salt) pw = Some []"
    unfolding cipher_roundtrip_def by blast
  have "encrypt L env salt [] = Inr (cipher L [] pw salt)"
    by (simp add: encrypt_def AES_encrypt_def pw)
  moreover have "decrypt L env (cipher L [] pw salt) = Inl ''Failed to decrypt data''"
    by (simp add: decrypt_def AES_decrypt_Utf8_def pw rt)
  ultimately show "\<exists>c0. encrypt L env salt [] = Inr c0 \<and> decrypt L env c0 = Inl ''Failed to decrypt data''"
    by blast
qed

theorem decrypt_rejects_empty_witness:
  "AES_decrypt_Utf8 tagCipher (js ''k1'') (ENCRYPTION_KEY (Some (js ''k1''))) = Some [] \<and>
   cipher_roundtrip tagCipher (ENCRYPTION_KEY (Some (js ''k1''))) \<and>
   decrypt tagCipher (Some (js ''k1'')) (js ''k1'') = Inl ''Failed to decrypt data'' \<and>
   (\<exists>c0. encrypt tagCipher (Some (js ''k1'')) [1, 2, 3, 4, 5, 6, 7, 8] [] = Inr c0 \<and>
         decrypt tagCipher (Some (js ''k1'')) c0 = Inl ''Failed to decrypt data'')"
proof -
  have h1: "AES_decrypt_Utf8 tagCipher (js ''k1'') (ENCRYPTION_KEY (Some (js ''k1''))) = Some []"
    by (simp add: AES_decrypt_Utf8_def tagCipher_def ENCRYPTION_KEY_def js_def utf8_bytes_def
          isLowSurrogate_def isHighSurrogate_def)
  have k: "wellFormed (ENCRYPTION_KEY (Some (js ''k1'')))"
    by (simp add: ENCRYPTION_KEY_def wellFormed_js)
  have h2: "cipher_roundtrip tagCipher (ENCRYPTION_KEY (Some (js ''k1'')))"
    using k by (rule tagCipher_roundtrip)
  from decrypt_rejects_empty [of tagCipher "js ''k1''" "Some (js ''k1'')" "[1, 2, 3, 4, 5, 6, 7, 8]"] h1 h2
  show ?thesis by blast
qed

subsection \<open>\<open>decryptObject\<close>\<close>

text \<open>
  What the loop of \<open>decryptObject\<close> leaves under a key, for any object built so far.
\<close>

lemma decryptObject_loop_lookup:
  "distinct (map fst obj) \<Longrightarrow>
   decryptObject_loop L env obj m k =
     (case map_of obj k of
        None \<Rightarrow> m k
      | Some v \<Rightarrow>
          if v = [] \<or> k = js ''__proto__'' then m k
          else Some (case decrypt L env v of
                       Inr plain \<Rightarrow> plain
                     | Inl err \<Rightarrow> js ''[DECRYPTION_FAILED]''))"
proof (induction obj arbitrary: m)
  case Nil
  then show ?case by simp
next
  case (Cons kv rest)
  obtain k' v' where kv: "kv = (k', v')" by (cases kv)
  from Cons.prems kv have d: "distinct (map fst rest)" and nk: "k' \<notin> fst ` set rest" by auto
  from nk have none: "map_of rest k' = None" by (simp add: map_of_eq_None_iff)
  show ?case
  proof (cases "k = k'")
    case True
    then show ?thesis using kv none Cons.IH [OF d]
      by (simp add: assignProperty_def split: sum.splits)
  next
    case False
    then show ?thesis using kv Cons.IH [OF d]
      by (simp add: assignProperty_def split: sum.splits option.splits)
  qed
qed

text \<open>
  Claim C7, as amended. \<open>decryptObject\<close> has no failing outcome: every call of \<open>decrypt\<close>
  is inside the \<open>try\<close> of its own field, so the function always returns an object. In that
  object, every field of the input with a non-empty value and a name other than
  \<open>__proto__\<close> is present, as the decrypted plaintext when \<open>decrypt\<close> returns and as the
  string \<open>[DECRYPTION_FAILED]\<close> when \<open>decrypt\<close> throws, whatever happens to the other
  fields; fields with an empty value, a field named \<open>__proto__\<close> and keys that are not in
  the input are absent.
\<close>

theorem decryptObject_fields:
  assumes "distinct (map fst obj)"
  shows "(\<forall>(k, v) \<in> set obj.
            decryptObject L env obj k =
              (if v = [] \<or> k = js ''__proto__'' then None
               else Some (case decrypt L env v of
                            Inr plain \<Rightarrow> plain
                          | Inl err \<Rightarrow> js ''[DECRYPTION_FAILED]''))) \<and>
         (\<forall>k. k \<notin> fst ` set obj \<longrightarrow> decryptObject L env obj k = None)"
proof (intro conjI ballI allI impI)
  fix kv assume inobj: "kv \<in> set obj"
  obtain k v where kv: "kv = (k, v)" by (cases kv)
  with inobj have mem: "(k, v) \<in> set obj" by simp
  from assms mem have "map_of obj k = Some v" by simp
  then show "case kv of (k, v) \<Rightarrow>
       decryptObject L env obj k =
         (if v = [] \<or> k = js ''__proto__'' then None
          else Some (case decrypt L env v of
                       Inr plain \<Rightarrow> plain
                     | Inl err \<Rightarrow> js ''[DECRYPTION_FAILED]''))"
    using kv by (simp add: decryptObject_def decryptObject_loop_lookup [OF assms])
next
  fix k assume "k \<notin> fst ` set obj"
  then have "map_of obj k = None" by (simp add: map_of_eq_None_iff)
  then show "decryptObject L env obj k = None"
    by (simp add: decryptObject_def decryptObject_loop_lookup [OF assms])
qed

text \<open>
  What \<open>decrypt\<close> does, under the key \<open>k1\<close>, with the texts of the record below.
\<close>

lemma decrypt_tagCipher_examples:
  "decrypt tagCipher (Some (js ''k1'')) (js ''k14111'') = Inr (js ''4111'')"
  "decrypt tagCipher (Some (js ''k1'')) (js ''garbage'') = Inl ''Failed to decrypt data''"
  "decrypt tagCipher (Some (js ''k1'')) (js ''k1Ann'') = Inr (js ''Ann'')"
  by (simp_all add: decrypt_def AES_decrypt_Utf8_def tagCipher_def ENCRYPTION_KEY_def js_def
        utf8_bytes_def codeUnits_def isLowSurrogate_def isHighSurrogate_def)

text \<open>
  A record whose \<open>cvv\<close> does not decrypt: that field becomes the sentinel, the card number
  still decrypts, the empty field and an unknown key are absent.
\<close>

theorem decryptObject_fields_witness:
  "distinct (map fst [(js ''cardNumber'', js ''k14111''), (js ''cvv'', js ''garbage''),
                      (js ''nickname'', [])]) \<and>
   decryptObject tagCipher (Some (js ''k1''))
     [(js ''cardNumber'', js ''k14111''), (js ''cvv'', js ''garbage''), (js ''nickname'', [])]
     (js ''cvv'') = Some (js ''[DECRYPTION_FAILED]'') \<and>
   decryptObject tagCipher (Some (js ''k1''))
     [(js ''cardNumber'', js ''k14111''), (js ''cvv'', js ''garbage''), (js ''nickname'', [])]
     (js ''cardNumber'') = Some (js ''4111'') \<and>
   decryptObject tagCipher (Some (js ''k1''))
     [(js ''cardNumber'', js ''k14111''), (js ''cvv'', js ''garbage''), (js ''nickname'', [])]
     (js ''nickname'') = None \<and>
   decryptObject tagCipher (Some (js ''k1''))
     [(js ''cardNumber'', js ''k14111''), (js ''cvv'', js ''garbage''), (js ''nickname'', [])]
     (js ''bankName'') = None"
proof -
  let ?obj = "[(js ''cardNumber'', js ''k14111''), (js ''cvv'', js ''garbage''), (js ''nickname'', [])]"
  have h: "distinct (map fst ?obj)" by (simp add: js_def)
  have nb: "js ''bankName'' \<notin> fst ` set ?obj" by (simp add: js_def)
  have np: "js ''cvv'' \<noteq> js ''__proto__''" "js ''cardNumber'' \<noteq> js ''__proto__''"
    "js ''garbage'' \<noteq> []" "js ''k14111'' \<noteq> []"
    by (simp_all add: js_def)
  from decryptObject_fields [OF h, of tagCipher "Some (js ''k1'')"] h nb np
  show ?thesis by (simp add: decrypt_tagCipher_examples)
qed

text \<open>
  Claim C7 as stated fails for a field named \<open>__proto__\<close>: its value is not empty and
  decrypts, and still the result has no such field.
\<close>

theorem decryptObject_proto_counterexample:
  "decrypt tagCipher (Some (js ''k1'')) (js ''k1Ann'') = Inr (js ''Ann'') \<and>
   decryptObject tagCipher (Some (js ''k1'')) [(js ''__proto__'', js ''k1Ann'')] (js ''__proto__'')
     = None"
  by (simp add: decrypt_tagCipher_examples decryptObject_def assignProperty_def)

section \<open>Properties of the credential store\<close>

lemma POST_credentials_distinct:
  "distinct (map credentialId db) \<Longrightarrow>
   distinct (map credentialId (snd (POST_credentials dbOk newId t body db)))"
  by (auto simp: POST_credentials_def filter_empty_conv split: option.splits)

text \<open>
  Stored credential ids are never empty: \<open>POST\<close> refuses an empty one with status 400, and
  \<open>PUT\<close> does not touch the credential id.
\<close>

lemma updateFirst_map:
  "(\<And>x. g (f x) = g x) \<Longrightarrow> map g (updateFirst P f xs) = map g xs"
  by (induction xs) simp_all

lemma stored_credentialIds_nonempty:
  assumes "\<forall>d \<in> set db. credentialId d \<noteq> []"
  shows "(\<forall>d \<in> set (snd (POST_credentials dbOk newId t body db)). credentialId d \<noteq> []) \<and>
         (\<forall>d \<in> set (snd (PUT_credentials dbOk t c n db)). credentialId d \<noteq> [])"
proof
  show "\<forall>d \<in> set (snd (POST_credentials dbOk newId t body db)). credentialId d \<noteq> []"
    using assms by (auto simp: POST_credentials_def given_def split: option.splits if_splits)
  have "map credentialId (snd (PUT_credentials dbOk t c n db)) = map credentialId db"
    by (simp add: PUT_credentials_def updateFirst_map split: option.splits)
  then have "credentialId ` set (snd (PUT_credentials dbOk t c n db)) = credentialId ` set db"
    by (metis set_map)
  with assms show "\<forall>d \<in> set (snd (PUT_credentials dbOk t c n db)). credentialId d \<noteq> []"
    by (metis imageE imageI)
qed

text \<open>
  Claim C4. When the collection holds a document with credential id \<open>D\<close>, a \<open>POST\<close> with
  that credential id and a non-empty user id and public key, on a database that answers, is
  refused with status 409 and leaves the collection as it was: nothing is overwritten and
  nothing is added. Whatever a \<open>POST\<close> does, credential ids that were pairwise distinct
  before it are pairwise distinct after it. (Stored credential ids are non-empty, since
  \<open>POST\<close> refuses an empty one with status 400.)
\<close>

theorem POST_duplicate_conflict:
  assumes "d \<in> set db" and "credentialId d = D" and "D \<noteq> []" and "u \<noteq> []" and "pk \<noteq> []"
  shows "POST_credentials True newId t
           \<lparr> reqUserId = Some u, reqPublicKey = Some pk, reqCredentialId = Some D,
             reqCounter = n, reqDeviceInfo = info \<rparr> db
         = (\<lparr> status = 409, json = ErrorJson ''Credential already exists'' \<rparr>, db) \<and>
         (distinct (map credentialId db) \<longrightarrow>
            distinct (map credentialId (snd (POST_credentials dbOk' newId' t' body db))))"
proof -
  from assms(1,2) have "filter (\<lambda>x. credentialId x = D) db \<noteq> []"
    by (auto simp: filter_empty_conv)
  with assms(3-5) have "POST_credentials True newId t
           \<lparr> reqUserId = Some u, reqPublicKey = Some pk, reqCredentialId = Some D,
             reqCounter = n, reqDeviceInfo = info \<rparr> db
         = (\<lparr> status = 409, json = ErrorJson ''Credential already exists'' \<rparr>, db)"
    by (simp add: POST_credentials_def given_def)
  then show ?thesis using POST_credentials_distinct by blast
qed

text \<open>A second enrollment of \<open>cred1\<close>, by another user with another key.\<close>

theorem POST_duplicate_conflict_witness:
  "demoCredential 0 \<in> set [demoCredential 0] \<and> credentialId (demoCredential 0) = ''cred1'' \<and>
   POST_credentials True ''doc2'' 1700000000000
     \<lparr> reqUserId = Some ''u2'', reqPublicKey = Some ''pk2'', reqCredentialId = Some ''cred1'',
       reqCounter = Some 0, reqDeviceInfo = None \<rparr> [demoCredential 0]
   = (\<lparr> status = 409, json = ErrorJson ''Credential already exists'' \<rparr>, [demoCredential 0])"
proof -
  have h1: "demoCredential 0 \<in> set [demoCredential 0]" by simp
  have h2: "credentialId (demoCredential 0) = ''cred1''" by (simp add: demoCredential_def)
  have h3: "''cred1'' \<noteq> []" and h4: "''u2'' \<noteq> []" and h5: "''pk2'' \<noteq> []" by simp_all
  from POST_duplicate_conflict [OF h1 h2 h3 h4 h5, of "''doc2''" 1700000000000 "Some 0" None] h1 h2
  show ?thesis by blast
qed

text \<open>Blanking the key of the document whose key was changed gives the same collection.\<close>

lemma map_samePublic_update:
  "map samePublic (db[i := (db ! i)\<lparr> publicKey := pk \<rparr>]) = map samePublic db"
proof (cases "i < length db")
  case True
  have "samePublic ((db ! i)\<lparr> publicKey := pk \<rparr>) = map samePublic db ! i"
    using True by (simp add: samePublic_def)
  then show ?thesis by (simp add: map_update)
next
  case False
  then have "length db \<le> i" by simp
  then have "db[i := (db ! i)\<lparr> publicKey := pk \<rparr>] = db" by (rule list_update_beyond)
  then show ?thesis by simp
qed

lemma filter_samePublic:
  "map samePublic a = map samePublic b \<Longrightarrow>
   map samePublic (filter (\<lambda>d. credentialId d = c) a) = map samePublic (filter (\<lambda>d. credentialId d = c) b)"
proof (induction a arbitrary: b)
  case Nil
  then show ?case by simp
next
  case (Cons x xs)
  then obtain y ys where b: "b = y # ys" by (cases b) auto
  from Cons.prems b have xy: "samePublic x = samePublic y" and rest: "map samePublic xs = map samePublic ys"
    by auto
  from xy have "credentialId (samePublic x) = credentialId (samePublic y)" by simp
  then have "credentialId x = credentialId y" by (simp add: samePublic_def)
  with xy Cons.IH [OF rest] b show ?case by simp
qed

lemma samePublic_userIds:
  assumes "map samePublic F1 = map samePublic F2"
  shows "map userId F1 = map userId F2"
proof -
  have "map userId F1 = map userId (map samePublic F1)" by (simp add: samePublic_def comp_def)
  also have "\<dots> = map userId (map samePublic F2)" using assms by simp
  also have "\<dots> = map userId F2" by (simp add: samePublic_def comp_def)
  finally show ?thesis .
qed

lemma authenticateUser_samePublic:
  assumes "map samePublic db1 = map samePublic db2"
  shows "fst (authenticateUser e db1) = fst (authenticateUser e db2)"
proof (cases "credentialsGet e")
  case (Asserted cid sig)
  let ?F1 = "filter (\<lambda>d. credentialId d = cid) db1"
  let ?F2 = "filter (\<lambda>d. credentialId d = cid) db2"
  have eq: "map userId ?F1 = map userId ?F2"
    using samePublic_userIds [OF filter_samePublic [OF assms]] .
  show ?thesis
  proof (cases ?F1)
    case Nil
    with eq have "?F2 = []" by simp
    with Nil Asserted show ?thesis
      by (simp add: authenticateUser_def GET_credentials_def given_def ok_def Let_def
               split: net.splits)
  next
    case (Cons x xs)
    with eq obtain y ys where F2: "?F2 = y # ys" and "userId x = userId y"
      by (cases ?F2) auto
    with Cons Asserted show ?thesis
      by (simp add: authenticateUser_def GET_credentials_def given_def ok_def Let_def
               split: net.splits)
  qed
qed (simp_all add: authenticateUser_def)

lemma authenticateUserServer_samePublic:
  assumes "map samePublic db1 = map samePublic db2"
  shows "map_sum id fst (authenticateUserServer e ini db1) = map_sum id fst (authenticateUserServer e ini db2)"
proof (cases "credentialsGet e")
  case (Asserted cid sig)
  let ?F1 = "filter (\<lambda>d. credentialId d = cid) db1"
  let ?F2 = "filter (\<lambda>d. credentialId d = cid) db2"
  have eq: "map userId ?F1 = map userId ?F2"
    using samePublic_userIds [OF filter_samePublic [OF assms]] .
  show ?thesis
  proof (cases ?F1)
    case Nil
    with eq have "?F2 = []" by simp
    with Nil Asserted show ?thesis
      by (simp add: authenticateUserServer_def GET_credentials_def given_def ok_def Let_def
               split: net.splits sum.splits)
  next
    case (Cons x xs)
    with eq obtain y ys where F2: "?F2 = y # ys" and "userId x = userId y"
      by (cases ?F2) auto
    with Cons Asserted show ?thesis
      by (simp add: authenticateUserServer_def GET_credentials_def given_def ok_def Let_def
               split: net.splits sum.splits)
  qed
qed (simp_all add: authenticateUserServer_def split: sum.splits)

lemma authenticateUser_signature:
  "credentialsGet e = Asserted cid sig \<Longrightarrow>
   authenticateUser (e\<lparr> credentialsGet := Asserted cid sig' \<rparr>) db = authenticateUser e db"
  by (simp add: authenticateUser_def Let_def split: net.splits credentialsJson.splits list.splits)

text \<open>
  Claim C1. Take any collection and replace the public key of any one of its documents by
  any other value. In the same surroundings, \<open>authenticateUser\<close> of the client returns the
  same result object for both collections, and so does the variant of
  \<open>biometricAuthServer.ts\<close> (the same exception, or the same result object and
  initialisation flag): the outcome does not depend on the stored public key. Nor does the
  client's outcome depend on the signature of the assertion: with any other signature bytes
  for the same credential id, result and collection are the same.
\<close>

theorem authentication_ignores_publicKey:
  "fst (authenticateUser e (db[i := (db ! i)\<lparr> publicKey := pk \<rparr>])) = fst (authenticateUser e db) \<and>
   map_sum id fst (authenticateUserServer e ini (db[i := (db ! i)\<lparr> publicKey := pk \<rparr>]))
     = map_sum id fst (authenticateUserServer e ini db) \<and>
   authenticateUser (e\<lparr> credentialsGet := Asserted cid sig \<rparr>) db
     = authenticateUser (e\<lparr> credentialsGet := Asserted cid sig' \<rparr>) db"
proof (intro conjI)
  show "fst (authenticateUser e (db[i := (db ! i)\<lparr> publicKey := pk \<rparr>])) = fst (authenticateUser e db)"
    by (rule authenticateUser_samePublic [OF map_samePublic_update])
  show "map_sum id fst (authenticateUserServer e ini (db[i := (db ! i)\<lparr> publicKey := pk \<rparr>]))
     = map_sum id fst (authenticateUserServer e ini db)"
    by (rule authenticateUserServer_samePublic [OF map_samePublic_update])
  show "authenticateUser (e\<lparr> credentialsGet := Asserted cid sig \<rparr>) db
     = authenticateUser (e\<lparr> credentialsGet := Asserted cid sig' \<rparr>) db"
    using authenticateUser_signature [of "e\<lparr> credentialsGet := Asserted cid sig' \<rparr>" cid sig' sig db]
    by simp
qed

text \<open>
  The stored key of \<open>cred1\<close> replaced by a key the authenticator never had: the user is
  still signed in as \<open>u1\<close>.
\<close>

theorem authentication_ignores_publicKey_witness:
  "fst (authenticateUser (demoEnv (Asserted ''cred1'' []))
          ([demoCredential 0][0 := ([demoCredential 0] ! 0)\<lparr> publicKey := ''forged'' \<rparr>]))
   = fst (authenticateUser (demoEnv (Asserted ''cred1'' [])) [demoCredential 0]) \<and>
   fst (authenticateUser (demoEnv (Asserted ''cred1'' [])) [demoCredential 0])
   = \<lparr> success = True, resultCredentialId = Some ''cred1'', resultUserId = Some ''u1'', error = None \<rparr>"
proof -
  have "fst (authenticateUser (demoEnv (Asserted ''cred1'' [])) [demoCredential 0])
        = \<lparr> success = True, resultCredentialId = Some ''cred1'', resultUserId = Some ''u1'', error = None \<rparr>"
    by (simp add: authenticateUser_def GET_credentials_def given_def ok_def succeeded_def
          demoEnv_def demoCredential_def)
  with authentication_ignores_publicKey
         [where e = "demoEnv (Asserted ''cred1'' [])" and db = "[demoCredential 0]" and i = 0
            and pk = "''forged''"]
  show ?thesis by blast
qed




text \<open>
  The lookup finds nothing, and \<open>signInWithFace\<close> stops at a failed verification.
\<close>

lemma authenticateUser_unknown:
  assumes "publicKeyCredential e" and "credentialsGet e = Asserted C sig" and "lookupNet e = Up"
    and "C \<noteq> []" and "\<forall>r \<in> set db. credentialId r \<noteq> C"
  shows "authenticateUser e db = (failed ''No user found for this biometric credential'', db)"
proof -
  from assms(5) have "filter (\<lambda>d. credentialId d = C) db = []" by (simp add: filter_empty_conv)
  with assms(1-4) show ?thesis
    by (simp add: authenticateUser_def GET_credentials_def given_def ok_def)
qed

lemma signInWithFace_try_failed:
  assumes "isBiometricAvailable e" and "authenticateUser e (biometricCredentials w) = (res, db')"
    and "\<not> success res"
  shows "signInWithFace_try e wc w
         = (Inl (orElse (error res) ''Biometric authentication failed''), w\<lparr> biometricCredentials := db' \<rparr>)"
  using assms by (simp add: signInWithFace_try_def)

text \<open>
  Claim C5, as amended. In a browser with WebAuthn and a platform authenticator, when the
  assertion ceremony returns a non-empty credential id that no document of the collection
  has and the lookup request is served, \<open>authenticateUser\<close> returns
  \<open>{ success: false, error: "No user found for this biometric credential" }\<close>, and
  \<open>signInWithFace\<close> throws that message and leaves \<open>user\<close> and \<open>userProfile\<close> as they
  were: no session is created.
\<close>

theorem unknown_credential_no_session:
  assumes "publicKeyCredential e" and "platformAuthenticator e"
    and "credentialsGet e = Asserted C sig" and "lookupNet e = Up"
    and "C \<noteq> []" and "\<forall>r \<in> set (biometricCredentials w). credentialId r \<noteq> C"
  shows "fst (authenticateUser e (biometricCredentials w))
           = \<lparr> success = False, resultCredentialId = None, resultUserId = None,
               error = Some ''No user found for this biometric credential'' \<rparr> \<and>
         fst (signInWithFace e w) = Inl ''No user found for this biometric credential'' \<and>
         user (snd (signInWithFace e w)) = user w \<and>
         userProfile (snd (signInWithFace e w)) = userProfile w"
proof -
  have a: "authenticateUser e (biometricCredentials w)
           = (failed ''No user found for this biometric credential'', biometricCredentials w)"
    using assms(1,3,4,5,6) by (rule authenticateUser_unknown)
  have av: "isBiometricAvailable e" using assms(1,2) by (simp add: isBiometricAvailable_def)
  have "signInWithFace_try e w (w\<lparr> loading := True \<rparr>)
        = (Inl ''No user found for this biometric credential'',
           w\<lparr> loading := True, biometricCredentials := biometricCredentials w \<rparr>)"
    using signInWithFace_try_failed [OF av, of "w\<lparr> loading := True \<rparr>"
        "failed ''No user found for this biometric credential''" "biometricCredentials w" w] a
    by (simp add: failed_def orElse_def given_def)
  then show ?thesis using a
    by (simp add: signInWithFace_def logSecurityEvent_def failed_def)
qed

theorem unknown_credential_no_session_witness:
  "biometricCredentials (demoWorld [demoCredential 0]) = [demoCredential 0] \<and>
   credentialId (demoCredential 0) \<noteq> ''cred9'' \<and>
   fst (signInWithFace (demoEnv (Asserted ''cred9'' [])) (demoWorld [demoCredential 0]))
     = Inl ''No user found for this biometric credential'' \<and>
   user (snd (signInWithFace (demoEnv (Asserted ''cred9'' [])) (demoWorld [demoCredential 0]))) = None \<and>
   userProfile (snd (signInWithFace (demoEnv (Asserted ''cred9'' [])) (demoWorld [demoCredential 0]))) = None"
proof -
  let ?e = "demoEnv (Asserted ''cred9'' [])"
  let ?w = "demoWorld [demoCredential 0]"
  have h1: "publicKeyCredential ?e" and h2: "platformAuthenticator ?e"
    and h3: "credentialsGet ?e = Asserted ''cred9'' []" and h4: "lookupNet ?e = Up"
    by (simp_all add: demoEnv_def)
  have h5: "''cred9'' \<noteq> []" by simp
  have h6: "\<forall>r \<in> set (biometricCredentials ?w). credentialId r \<noteq> ''cred9''"
    by (simp add: demoWorld_def demoCredential_def)
  have n: "user ?w = None" "userProfile ?w = None" by (simp_all add: demoWorld_def)
  have c: "biometricCredentials ?w = [demoCredential 0]" "credentialId (demoCredential 0) \<noteq> ''cred9''"
    by (simp_all add: demoWorld_def demoCredential_def)
  from unknown_credential_no_session [OF h1 h2 h3 h4 h5 h6] c n show ?thesis by simp
qed

text \<open>
  Claim C5 as stated fails on the error string: the result carries the message of the
  exception, which is not \<open>UnknownCredential\<close>.
\<close>

theorem unknown_credential_error_counterexample:
  "fst (authenticateUser (demoEnv (Asserted ''cred9'' [])) [demoCredential 0])
   = \<lparr> success = False, resultCredentialId = None, resultUserId = None,
       error = Some ''No user found for this biometric credential'' \<rparr> \<and>
   fst (authenticateUser (demoEnv (Asserted ''cred9'' [])) [demoCredential 0])
   \<noteq> \<lparr> success = False, resultCredentialId = None, resultUserId = None,
       error = Some ''UnknownCredential'' \<rparr>"
  by (simp add: authenticateUser_def GET_credentials_def given_def ok_def failed_def
        demoEnv_def demoCredential_def)

text \<open>The first document that satisfies the query is the one \<open>updateDoc\<close> rewrites.\<close>

lemma updateFirst_nth:
  "i < length xs \<Longrightarrow> P (xs ! i) \<Longrightarrow> \<forall>j<i. \<not> P (xs ! j) \<Longrightarrow> updateFirst P f xs = xs[i := f (xs ! i)]"
proof (induction xs arbitrary: i)
  case Nil
  then show ?case by simp
next
  case (Cons x xs)
  show ?case
  proof (cases i)
    case 0
    with Cons.prems show ?thesis by simp
  next
    case (Suc k)
    with Cons.prems have "\<not> P x" by auto
    moreover from Suc Cons.prems have "k < length xs" "P (xs ! k)" "\<forall>j<k. \<not> P (xs ! j)" by auto
    ultimately show ?thesis using Suc Cons.IH [of k] by simp
  qed
qed

text \<open>A credential enrolled by \<open>registerBiometric\<close> starts with counter 0.\<close>

lemma registerBiometric_counter:
  assumes "registerBiometric e uidArg name shown db = (res, db')" and "success res"
  shows "\<exists>d. db' = db @ [d] \<and> counter d = 0 \<and> userId d = uidArg"
  using assms
  by (auto simp: registerBiometric_def POST_credentials_def failed_def ok_def given_def Let_def
           split: if_splits attestation.splits net.splits option.splits)

text \<open>
  Claim C6, as amended. A successful verification by the client, with both requests served,
  against the document matched by the returned credential id (the first one with that id)
  sets the stored counter of that document to 0, the constant the client sends, and its
  \<open>lastUsed\<close> to the time of the call, and changes no other document. So the stored counter
  after the verification is at least its value before exactly when that value was at most
  0, as it is for every credential enrolled by \<open>registerBiometric\<close>, which stores 0.
\<close>

theorem verification_overwrites_counter:
  assumes "publicKeyCredential e" and "credentialsGet e = Asserted C sig" and "lookupNet e = Up"
    and "updateNet e = Up" and "C \<noteq> []"
    and "i < length db" and "credentialId (db ! i) = C" and "\<forall>j<i. credentialId (db ! j) \<noteq> C"
  shows "success (fst (authenticateUser e db)) \<and>
         snd (authenticateUser e db) = db[i := (db ! i)\<lparr> counter := 0, lastUsed := Some (now e) \<rparr>] \<and>
         counter (snd (authenticateUser e db) ! i) = 0 \<and>
         (counter (db ! i) \<le> counter (snd (authenticateUser e db) ! i) \<longleftrightarrow> counter (db ! i) \<le> 0)"
proof -
  let ?P = "\<lambda>d. credentialId d = C"
  from assms(6,7) have "db ! i \<in> set (filter ?P db)" by simp
  then obtain x xs where F: "filter ?P db = x # xs" by (cases "filter ?P db") auto
  have upd: "updateFirst ?P (\<lambda>d. d\<lparr> counter := 0, lastUsed := Some (now e) \<rparr>) db
             = db[i := (db ! i)\<lparr> counter := 0, lastUsed := Some (now e) \<rparr>]"
    using assms(6,7,8) by (intro updateFirst_nth) auto
  have res: "authenticateUser e db
             = (succeeded C (userId x), db[i := (db ! i)\<lparr> counter := 0, lastUsed := Some (now e) \<rparr>])"
    using assms(1-5) F upd
    by (simp add: authenticateUser_def GET_credentials_def PUT_credentials_def given_def ok_def)
  with assms(6) show ?thesis by (simp add: succeeded_def)
qed

text \<open>A credential enrolled with counter 0 keeps it.\<close>

theorem verification_overwrites_counter_witness:
  "credentialId ([demoCredential 0] ! 0) = ''cred1'' \<and>
   success (fst (authenticateUser (demoEnv (Asserted ''cred1'' [])) [demoCredential 0])) \<and>
   counter (snd (authenticateUser (demoEnv (Asserted ''cred1'' [])) [demoCredential 0]) ! 0) = 0 \<and>
   counter ([demoCredential 0] ! 0)
     \<le> counter (snd (authenticateUser (demoEnv (Asserted ''cred1'' [])) [demoCredential 0]) ! 0)"
proof -
  let ?e = "demoEnv (Asserted ''cred1'' [])"
  have h1: "publicKeyCredential ?e" and h2: "credentialsGet ?e = Asserted ''cred1'' []"
    and h3: "lookupNet ?e = Up" and h4: "updateNet ?e = Up"
    by (simp_all add: demoEnv_def)
  have h5: "''cred1'' \<noteq> []" by simp
  have h6: "0 < length [demoCredential 0]" by simp
  have h7: "credentialId ([demoCredential 0] ! 0) = ''cred1''" by (simp add: demoCredential_def)
  have h8: "\<forall>j<0. credentialId ([demoCredential 0] ! j) \<noteq> ''cred1''" by simp
  have c0: "counter ([demoCredential 0] ! 0) \<le> 0" by (simp add: demoCredential_def)
  from verification_overwrites_counter [OF h1 h2 h3 h4 h5 h6 h7 h8] h7 c0 show ?thesis by blast
qed

text \<open>
  Claim C6 as stated fails: a counter of 5, written through \<open>PUT\<close> as the variant of
  \<open>biometricAuthServer.ts\<close> writes the counters it reads, is 0 after a successful
  verification by the client.
\<close>

theorem counter_decreases_counterexample:
  "counter (snd (PUT_credentials True 1650000000000 (Some ''cred1'') (Some 5) [demoCredential 0]) ! 0) = 5 \<and>
   success (fst (authenticateUser (demoEnv (Asserted ''cred1'' []))
                   (snd (PUT_credentials True 1650000000000 (Some ''cred1'') (Some 5) [demoCredential 0])))) \<and>
   counter (snd (authenticateUser (demoEnv (Asserted ''cred1'' []))
                   (snd (PUT_credentials True 1650000000000 (Some ''cred1'') (Some 5) [demoCredential 0]))) ! 0) = 0"
  by (simp add: authenticateUser_def GET_credentials_def PUT_credentials_def given_def ok_def
        demoEnv_def demoCredential_def succeeded_def)

section \<open>Properties of the audit trail\<close>

lemma logs_logSecurityEvent:
  "securityLogs (logSecurityEvent e u a m s d w) = securityLogs w @ written e (logData e u a m s d)"
  by (simp add: logSecurityEvent_def written_def)

text \<open>
  The \<open>try\<close> blocks call \<open>logSecurityEvent\<close> once when they complete and not at all when
  they throw.
\<close>

lemma setupFaceAuth_try_logs:
  "(case setupFaceAuth_try e u wc w of
      (Inl msg, w') \<Rightarrow> securityLogs w' = securityLogs w
    | (Inr x, w') \<Rightarrow>
        securityLogs w' = securityLogs w @
          written e (logData e (Some u) ''face_auth'' ''face'' True
                       (Some ''Biometric authentication setup completed'')))"
  by (auto simp: setupFaceAuth_try_def createUserProfile_def logs_logSecurityEvent Let_def
           split: sum.splits option.splits prod.splits)

lemma signInWithFace_try_logs:
  "(case signInWithFace_try e wc w of
      (Inl msg, w') \<Rightarrow> securityLogs w' = securityLogs w
    | (Inr x, w') \<Rightarrow>
        securityLogs w' = securityLogs w @
          written e (logData e (user wc) ''login'' ''face'' True
                       (Some ''Biometric authentication successful'')))"
  by (auto simp: signInWithFace_try_def logs_logSecurityEvent Let_def
           split: sum.splits option.splits prod.splits net.splits loginJson.splits)

text \<open>
  Claim C8, as amended. \<open>setupFaceAuth\<close> called while a user is signed in returns a boolean
  and has called \<open>logSecurityEvent\<close> exactly once, with that boolean as success flag;
  \<open>signInWithFace\<close> returns \<open>true\<close> or throws and has called \<open>logSecurityEvent\<close> exactly
  once, with success flag true exactly when it returned \<open>true\<close>. The call appends exactly
  one document with that flag to the audit collection when \<open>addDoc\<close> succeeds and none when
  it throws, the exception being swallowed. \<open>setupFaceAuth\<close> called while nobody is signed
  in throws \<open>User not authenticated\<close> before anything is logged and changes nothing.
\<close>

theorem audit_event_per_attempt:
  "(\<forall>u. user w = Some u \<longrightarrow>
      (\<exists>b det. fst (setupFaceAuth e w) = Inr b \<and>
         securityLogs (snd (setupFaceAuth e w))
           = securityLogs w @ written e (logData e (Some u) ''face_auth'' ''face'' b det) \<and>
         logSuccess (logData e (Some u) ''face_auth'' ''face'' b det) = b)) \<and>
   (user w = None \<longrightarrow> setupFaceAuth e w = (Inl ''User not authenticated'', w)) \<and>
   (\<exists>b det. (b \<longleftrightarrow> fst (signInWithFace e w) = Inr True) \<and>
      (\<not> b \<longrightarrow> (\<exists>msg. fst (signInWithFace e w) = Inl msg)) \<and>
      securityLogs (snd (signInWithFace e w))
        = securityLogs w @ written e (logData e (user w) ''login'' ''face'' b det) \<and>
      logSuccess (logData e (user w) ''login'' ''face'' b det) = b)"
proof (intro conjI allI impI)
  fix u assume u: "user w = Some u"
  obtain r w' where t: "setupFaceAuth_try e u w (w\<lparr> loading := True \<rparr>) = (r, w')"
    by (cases "setupFaceAuth_try e u w (w\<lparr> loading := True \<rparr>)")
  show "\<exists>b det. fst (setupFaceAuth e w) = Inr b \<and>
         securityLogs (snd (setupFaceAuth e w))
           = securityLogs w @ written e (logData e (Some u) ''face_auth'' ''face'' b det) \<and>
         logSuccess (logData e (Some u) ''face_auth'' ''face'' b det) = b"
  proof (cases r)
    case (Inl msg)
    with t setupFaceAuth_try_logs [where e = e and u = u and wc = w and w = "w\<lparr> loading := True \<rparr>"]
    have "securityLogs w' = securityLogs w" by simp
    with u t Inl have "fst (setupFaceAuth e w) = Inr False \<and>
         securityLogs (snd (setupFaceAuth e w))
           = securityLogs w @ written e (logData e (Some u) ''face_auth'' ''face'' False (Some msg))"
      by (simp add: setupFaceAuth_def logs_logSecurityEvent)
    then show ?thesis
      by (intro exI [of _ False] exI [of _ "Some msg"]) (simp add: logData_def)
  next
    case (Inr x)
    with t setupFaceAuth_try_logs [where e = e and u = u and wc = w and w = "w\<lparr> loading := True \<rparr>"]
    have "securityLogs w' = securityLogs w @
          written e (logData e (Some u) ''face_auth'' ''face'' True
                       (Some ''Biometric authentication setup completed''))" by simp
    with u t Inr have "fst (setupFaceAuth e w) = Inr True \<and>
         securityLogs (snd (setupFaceAuth e w))
           = securityLogs w @ written e (logData e (Some u) ''face_auth'' ''face'' True
                (Some ''Biometric authentication setup completed''))"
      by (simp add: setupFaceAuth_def)
    then show ?thesis
      by (intro exI [of _ True] exI [of _ "Some ''Biometric authentication setup completed''"])
         (simp add: logData_def)
  qed
next
  assume "user w = None"
  then show "setupFaceAuth e w = (Inl ''User not authenticated'', w)"
    by (simp add: setupFaceAuth_def)
next
  obtain r w' where t: "signInWithFace_try e w (w\<lparr> loading := True \<rparr>) = (r, w')"
    by (cases "signInWithFace_try e w (w\<lparr> loading := True \<rparr>)")
  show "\<exists>b det. (b \<longleftrightarrow> fst (signInWithFace e w) = Inr True) \<and>
      (\<not> b \<longrightarrow> (\<exists>msg. fst (signInWithFace e w) = Inl msg)) \<and>
      securityLogs (snd (signInWithFace e w))
        = securityLogs w @ written e (logData e (user w) ''login'' ''face'' b det) \<and>
      logSuccess (logData e (user w) ''login'' ''face'' b det) = b"
  proof (cases r)
    case (Inl msg)
    with t signInWithFace_try_logs [where e = e and wc = w and w = "w\<lparr> loading := True \<rparr>"]
    have "securityLogs w' = securityLogs w" by simp
    with t Inl have "fst (signInWithFace e w) = Inl msg \<and>
         securityLogs (snd (signInWithFace e w))
           = securityLogs w @ written e (logData e (user w) ''login'' ''face'' False (Some msg))"
      by (simp add: signInWithFace_def logs_logSecurityEvent)
    then show ?thesis
      by (intro exI [of _ False] exI [of _ "Some msg"]) (simp add: logData_def)
  next
    case (Inr x)
    with t signInWithFace_try_logs [where e = e and wc = w and w = "w\<lparr> loading := True \<rparr>"]
    have "securityLogs w' = securityLogs w @
          written e (logData e (user w) ''login'' ''face'' True
                       (Some ''Biometric authentication successful''))" by simp
    with t Inr have "fst (signInWithFace e w) = Inr True \<and>
         securityLogs (snd (signInWithFace e w))
           = securityLogs w @ written e (logData e (user w) ''login'' ''face'' True
                (Some ''Biometric authentication successful''))"
      by (simp add: signInWithFace_def)
    then show ?thesis
      by (intro exI [of _ True] exI [of _ "Some ''Biometric authentication successful''"])
         (simp add: logData_def)
  qed
qed

text \<open>
  A signed-in user enrolls in a browser where everything works: the attempt returns \<open>true\<close>
  and the audit collection, empty before, holds one document with success flag true. A
  sign-in with a credential that is not stored: the attempt throws and the audit collection
  holds one document with success flag false.
\<close>

theorem audit_event_per_attempt_witness:
  "user ((demoWorld [])\<lparr> user := Some demoUser \<rparr>) = Some demoUser \<and>
   fst (setupFaceAuth (demoEnv GetNull) ((demoWorld [])\<lparr> user := Some demoUser \<rparr>)) = Inr True \<and>
   map logSuccess
     (securityLogs (snd (setupFaceAuth (demoEnv GetNull) ((demoWorld [])\<lparr> user := Some demoUser \<rparr>))))
     = [True] \<and>
   user (demoWorld []) = None \<and>
   setupFaceAuth (demoEnv GetNull) (demoWorld []) = (Inl ''User not authenticated'', demoWorld []) \<and>
   fst (signInWithFace (demoEnv (Asserted ''cred9'' [])) (demoWorld []))
     = Inl ''No user found for this biometric credential'' \<and>
   map logSuccess (securityLogs (snd (signInWithFace (demoEnv (Asserted ''cred9'' [])) (demoWorld []))))
     = [False]"
proof -
  let ?e = "demoEnv GetNull"
  let ?e' = "demoEnv (Asserted ''cred9'' [])"
  let ?w = "(demoWorld [])\<lparr> user := Some demoUser \<rparr>"
  have h1: "user ?w = Some demoUser" by simp
  have h2: "user (demoWorld []) = None" by (simp add: demoWorld_def)
  have l: "securityLogs ?w = []" "securityLogs (demoWorld []) = []" by (simp_all add: demoWorld_def)
  have wr: "\<And>ev. written ?e ev = [ev]" "\<And>ev. written ?e' ev = [ev]"
    by (simp_all add: written_def demoEnv_def)
  have r1: "fst (setupFaceAuth ?e ?w) = Inr True"
    by (simp add: setupFaceAuth_def setupFaceAuth_try_def getUserProfile_def createUserProfile_def
          registerBiometric_def POST_credentials_def logSecurityEvent_def succeeded_def
          given_def orElse_def ok_def demoEnv_def demoWorld_def demoUser_def Let_def)
  have r2: "fst (signInWithFace ?e' (demoWorld [])) = Inl ''No user found for this biometric credential''"
    by (simp add: signInWithFace_def signInWithFace_try_def isBiometricAvailable_def
          authenticateUser_def GET_credentials_def failed_def logSecurityEvent_def
          given_def orElse_def ok_def demoEnv_def demoWorld_def Let_def)
  from audit_event_per_attempt [of ?w ?e] h1 l wr r1
  have a: "map logSuccess (securityLogs (snd (setupFaceAuth ?e ?w))) = [True]"
    by auto
  from audit_event_per_attempt [of "demoWorld []" ?e] h2
  have b: "setupFaceAuth ?e (demoWorld []) = (Inl ''User not authenticated'', demoWorld [])"
    by blast
  from audit_event_per_attempt [of "demoWorld []" ?e'] l wr r2
  have c: "map logSuccess (securityLogs (snd (signInWithFace ?e' (demoWorld [])))) = [False]"
    by auto
  from h1 h2 r1 r2 a b c show ?thesis by blast
qed

text \<open>
  Claim C8 as stated fails: an enrollment attempt while nobody is signed in fails and leaves
  no audit event; and a verification attempt during which the audit write fails leaves no
  audit event either.
\<close>

theorem setupFaceAuth_no_user_counterexample:
  "fst (setupFaceAuth (demoEnv GetNull) (demoWorld [])) = Inl ''User not authenticated'' \<and>
   securityLogs (snd (setupFaceAuth (demoEnv GetNull) (demoWorld []))) = [] \<and>
   fst (signInWithFace ((demoEnv GetNull)\<lparr> addDocOk := False \<rparr>) (demoWorld []))
     = Inl ''Authentication failed - no credential provided'' \<and>
   securityLogs (snd (signInWithFace ((demoEnv GetNull)\<lparr> addDocOk := False \<rparr>) (demoWorld []))) = []"
  by (simp add: setupFaceAuth_def signInWithFace_def signInWithFace_try_def isBiometricAvailable_def
        authenticateUser_def failed_def logSecurityEvent_def given_def orElse_def
        demoEnv_def demoWorld_def)

section \<open>Properties of the audit log query\<close>

text \<open>
  Claim C10. For a non-empty \<open>userId\<close> and a database that answers, \<open>GET\<close> responds with
  status 200 and a list that is cut out of a list \<open>S\<close>: \<open>S\<close> holds exactly the documents
  of the collection that belong to the requesting user (and have the requested action, when
  one is given), each as the handler copies it (without its \<open>location\<close>) and as often as
  the collection holds it, ordered by timestamp, newest first. With \<open>n\<close> the number that
  \<open>parseInt\<close> reads from the \<open>limit\<close> parameter, or from \<open>50\<close> when the parameter is
  missing or empty, the response is the first \<open>n\<close> documents of \<open>S\<close> when
  \<open>1 \<le> n \<le> 100\<close>, and the whole of \<open>S\<close> otherwise: for 0, for a negative number,
  for a number above 100, and when there is no number to read.
\<close>

theorem GET_security_logs_sorted_limited:
  assumes "u \<noteq> []"
  shows "\<exists>S. GET_security_logs True (Some u) limitParam actionParam logsCol
               = \<lparr> status = 200,
                   json = LogsJson (case parseInt (orElse limitParam ''50'') of
                                      None \<Rightarrow> S
                                    | Some n \<Rightarrow> if 0 < n \<and> n \<le> 100 then take (nat n) S else S) \<rparr> \<and>
             sorted_wrt (\<lambda>a b. timestamp a \<ge> timestamp b) S \<and>
             mset S = mset (map (\<lambda>d. d\<lparr> location := None \<rparr>)
                              (filter (\<lambda>l. logUserId l = u \<and>
                                           (case given actionParam of None \<Rightarrow> True | Some a \<Rightarrow> action l = a))
                                 logsCol)) \<and>
             (\<forall>l \<in> set S. logUserId l = u) \<and>
             (given limitParam = None \<longrightarrow> parseInt (orElse limitParam ''50'') = Some 50)"
proof -
  let ?logs = "map (\<lambda>d. d\<lparr> location := None \<rparr>)
                 (filter (\<lambda>l. logUserId l = u \<and>
                     (case given actionParam of None \<Rightarrow> True | Some a \<Rightarrow> action l = a)) logsCol)"
  let ?S = "sort_key (\<lambda>l. - timestamp l) ?logs"
  have 1: "GET_security_logs True (Some u) limitParam actionParam logsCol
             = \<lparr> status = 200,
                 json = LogsJson (case parseInt (orElse limitParam ''50'') of
                                    None \<Rightarrow> ?S
                                  | Some n \<Rightarrow> if 0 < n \<and> n \<le> 100 then take (nat n) ?S else ?S) \<rparr>"
  proof -
    have g: "given (Some u) = Some u" using assms by (simp add: given_def)
    show ?thesis by (simp add: GET_security_logs_def g Let_def)
  qed
  have "sorted (map (\<lambda>l. - timestamp l) ?S)" by (rule sorted_sort_key)
  then have 2: "sorted_wrt (\<lambda>a b. timestamp a \<ge> timestamp b) ?S"
    by (simp add: sorted_map)
  have 3: "mset ?S = mset ?logs" by simp
  have "set ?S = set ?logs" by simp
  then have 4: "\<forall>l \<in> set ?S. logUserId l = u" by auto
  have p50: "parseInt ''50'' = Some 50"
    by (simp add: parseInt_def isWhiteSpace_def isDigit_def digitValue_def digitsValue_def Let_def)
  have 5: "given limitParam = None \<longrightarrow> parseInt (orElse limitParam ''50'') = Some 50"
    by (simp add: orElse_def p50)
  show ?thesis by (rule exI [of _ ?S]) (intro conjI 1 2 3 4 5)
qed

text \<open>
  Four documents, three of user \<open>u1\<close>, one of them stored with a location: limit 2 gives the
  two newest, the first without its location; limit 0 and limit 101 give all three.
\<close>

theorem GET_security_logs_sorted_limited_witness:
  "''u1'' \<noteq> [] \<and>
   GET_security_logs True (Some ''u1'') (Some ''2'') None
     [demoLog ''a'' ''u1'' 10, demoLog ''b'' ''u2'' 40,
      (demoLog ''c'' ''u1'' 30)\<lparr> location := Some ''Berlin'' \<rparr>, demoLog ''d'' ''u1'' 20]
   = \<lparr> status = 200, json = LogsJson [demoLog ''c'' ''u1'' 30, demoLog ''d'' ''u1'' 20] \<rparr> \<and>
   json (GET_security_logs True (Some ''u1'') (Some ''0'') None
     [demoLog ''a'' ''u1'' 10, demoLog ''b'' ''u2'' 40,
      (demoLog ''c'' ''u1'' 30)\<lparr> location := Some ''Berlin'' \<rparr>, demoLog ''d'' ''u1'' 20])
   = LogsJson [demoLog ''c'' ''u1'' 30, demoLog ''d'' ''u1'' 20, demoLog ''a'' ''u1'' 10] \<and>
   (\<exists>S. json (GET_security_logs True (Some ''u1'') (Some ''101'') None
           [demoLog ''a'' ''u1'' 10, demoLog ''b'' ''u2'' 40,
            (demoLog ''c'' ''u1'' 30)\<lparr> location := Some ''Berlin'' \<rparr>, demoLog ''d'' ''u1'' 20])
         = LogsJson S \<and> length S = 3)"
proof -
  let ?col = "[demoLog ''a'' ''u1'' 10, demoLog ''b'' ''u2'' 40,
               (demoLog ''c'' ''u1'' 30)\<lparr> location := Some ''Berlin'' \<rparr>, demoLog ''d'' ''u1'' 20]"
  have h: "''u1'' \<noteq> []" by simp
  have p101: "parseInt ''101'' = Some 101"
    by (simp add: parseInt_def isWhiteSpace_def isDigit_def digitValue_def digitsValue_def Let_def)
  obtain S where S: "GET_security_logs True (Some ''u1'') (Some ''101'') None ?col
         = \<lparr> status = 200,
             json = LogsJson (case parseInt (orElse (Some ''101'') ''50'') of
                                None \<Rightarrow> S
                              | Some n \<Rightarrow> if 0 < n \<and> n \<le> 100 then take (nat n) S else S) \<rparr>"
     and m: "mset S = mset (map (\<lambda>d. d\<lparr> location := None \<rparr>)
                              (filter (\<lambda>l. logUserId l = ''u1'' \<and>
                                           (case given None of None \<Rightarrow> True | Some a \<Rightarrow> action l = a))
                                 ?col))"
    using GET_security_logs_sorted_limited [OF h, of "Some ''101''" None ?col]
    by blast
  from m have "size (mset S) = 3" by (simp add: given_def demoLog_def)
  then have len: "length S = 3" by simp
  from S p101 have "json (GET_security_logs True (Some ''u1'') (Some ''101'') None ?col) = LogsJson S"
    by (simp add: orElse_def given_def)
  with len have e3: "\<exists>S. json (GET_security_logs True (Some ''u1'') (Some ''101'') None ?col)
         = LogsJson S \<and> length S = 3" by blast
  have e1: "GET_security_logs True (Some ''u1'') (Some ''2'') None ?col
   = \<lparr> status = 200, json = LogsJson [demoLog ''c'' ''u1'' 30, demoLog ''d'' ''u1'' 20] \<rparr>"
    by (simp add: GET_security_logs_def given_def orElse_def demoLog_def Let_def
          parseInt_def isWhiteSpace_def isDigit_def digitValue_def digitsValue_def)
  have e2: "json (GET_security_logs True (Some ''u1'') (Some ''0'') None ?col)
   = LogsJson [demoLog ''c'' ''u1'' 30, demoLog ''d'' ''u1'' 20, demoLog ''a'' ''u1'' 10]"
    by (simp add: GET_security_logs_def given_def orElse_def demoLog_def Let_def
          parseInt_def isWhiteSpace_def isDigit_def digitValue_def digitsValue_def)
  from h e1 e2 e3 show ?thesis by blast
qed

end
